theory Spec2Isabelle
  imports Main "HOL-Library.Finite_Map"
begin

section \<open>Data model\<close>

text \<open>
  Timestamps are integers (seconds); \<open>timezone.now()\<close> is a parameter \<open>now\<close> of every
  operation. Character fields that are \<open>null=True\<close> in the Django models are
  \<open>string option\<close>, with \<open>None\<close> for Python's \<open>None\<close>.

  The models declare the natural keys as \<open>unique_together\<close>: a Product is identified by
  (store, shopify id), a ProductVariant by (product, shopify id), an InventoryLocation by
  (store, shopify id) and an InventoryLevel by (variant, location). A table with such a key
  is a finite map from the key to the remaining columns, and a foreign key to one of these
  tables is the key of the row it points to. Rules and rule applications have no natural
  key: they are lists of rows carrying their primary key.
\<close>

type_synonym time = int
type_synonym product_key = "nat \<times> int"
type_synonym variant_key = "product_key \<times> int"
type_synonym location_key = "nat \<times> int"
type_synonym level_key = "variant_key \<times> location_key"

text \<open>\<open>apps/accounts/models.py\<close>, class \<open>ShopifyStore\<close> (the columns the tasks use).\<close>

record store =
  st_shop_url :: string
  st_access_token :: "string option"
  st_is_active :: bool
  st_sync_status :: string
  st_last_sync_at :: "time option"

text \<open>\<open>apps/inventory/models.py\<close>.\<close>

record product =
  p_title :: string
  p_handle :: string
  p_product_type :: "string option"
  p_vendor :: "string option"
  p_status :: string
  p_published_at :: "time option"
  p_created_at :: time
  p_updated_at :: time
  p_last_synced :: time
  p_is_visible :: bool
  p_hidden_at :: "time option"
  p_scheduled_return :: "time option"

record product_variant =
  v_title :: string
  v_sku :: "string option"
  v_barcode :: "string option"
  v_price :: string
  v_compare_at_price :: "string option"
  v_position :: int
  v_created_at :: time
  v_updated_at :: time
  v_inventory_item_id :: int

record inventory_location =
  loc_name :: string
  loc_is_active :: bool
  loc_created_at :: time
  loc_updated_at :: time

record inventory_level =
  lv_available :: int
  lv_updated_at :: time
  lv_last_synced :: time

record inventory_log =
  log_store :: nat
  log_product :: "product_key option"
  log_variant :: "variant_key option"
  log_location :: "location_key option"
  log_action :: string
  log_previous_value :: "int option"
  log_new_value :: "int option"
  log_previous_status :: "string option"
  log_new_status :: "string option"
  log_notes :: "string option"
  log_created_at :: time

text \<open>
  \<open>apps/rules/models.py\<close>, classes \<open>Rule\<close> and \<open>RuleApplication\<close>: the columns the
  tasks use. The models declare no \<open>return_days\<close> and no \<open>send_notification\<close> on a
  rule, and no \<open>scheduled_at\<close> and no \<open>restored_at\<close> on a rule application; the
  statements of \<open>apps/inventory/tasks/rule_tasks.py\<close> that use these names raise (see
  \<open>step\<close> below).
\<close>

record rule =
  r_id :: nat
  r_store :: nat
  r_name :: string
  r_trigger_type :: string
  r_action_type :: string
  r_delay_minutes :: int
  r_auto_restore :: bool
  r_restore_after_days :: int
  r_product_type_filter :: "string option"
  r_vendor_filter :: "string option"
  r_is_active :: bool
  r_priority :: int

record rule_application =
  ra_id :: nat
  ra_rule :: nat
  ra_product :: product_key
  ra_status :: string
  ra_triggered_at :: time
  ra_scheduled_for :: "time option"
  ra_applied_at :: "time option"
  ra_restore_scheduled_for :: "time option"
  ra_notes :: "string option"

text \<open>Work items handed to the task queue by \<open>.delay(...)\<close>.\<close>

datatype task =
    Apply_rule nat
  | Notify_rule_applied nat nat product_key

text \<open>What a task asks of the \<open>shopify\<close> library: opening and clearing the session, one
  page of products, the inventory levels of one inventory item.\<close>

datatype remote_call = Activate_session | Product_page | InventoryLevel_find int | Clear_session

text \<open>The database tables, the task queue and the log of the calls to the remote API.\<close>

record state =
  stores :: "(nat, store) fmap"
  products :: "(product_key, product) fmap"
  variants :: "(variant_key, product_variant) fmap"
  locations :: "(location_key, inventory_location) fmap"
  levels :: "(level_key, inventory_level) fmap"
  rules :: "rule list"
  applications :: "rule_application list"
  next_application_id :: nat
  logs :: "inventory_log list"
  queue :: "task list"
  remote_calls :: "remote_call list"

section \<open>Rule matcher (\<open>apps/inventory/tasks/utils.py\<close>, also \<open>apps/inventory/tasks.py\<close>)\<close>

text \<open>Python truthiness of a nullable string: \<open>None\<close> and the empty string are false.\<close>

definition truthy :: "string option \<Rightarrow> bool" where
  "truthy s = (case s of None \<Rightarrow> False | Some x \<Rightarrow> x \<noteq> [])"

definition rule_matches_product :: "rule \<Rightarrow> product \<Rightarrow> bool" where
  "rule_matches_product rule product =
     (if truthy (r_product_type_filter rule) \<and> r_product_type_filter rule \<noteq> p_product_type product
      then False
      else if truthy (r_vendor_filter rule) \<and> r_vendor_filter rule \<noteq> p_vendor product
      then False
      else True)"

text \<open>
  The matcher in the words of the specification: a filter that is unset or empty always
  passes, a set filter passes when it equals the attribute.
\<close>

definition filter_passes :: "string option \<Rightarrow> string option \<Rightarrow> bool" where
  "filter_passes flt attribute = (flt = None \<or> flt = Some [] \<or> flt = attribute)"

section \<open>The environment of a task\<close>

text \<open>
  The statements of a transition that can raise, and what the remote API answers.

  A database write (\<open>Product_save\<close>, \<open>Log_create\<close>, \<open>Application_save\<close>), a hand-over
  to the queue (\<open>Enqueue_notification\<close>) and the call of
  \<open>client.update_product\<close> (\<open>Remote_update\<close>: \<open>_request\<close> lets a \<open>ValueError\<close>
  through) raise when the environment says so.

  Three statements of \<open>tasks/rule_tasks.py\<close> raise whenever they are reached, because
  they use a name that \<open>apps/rules/models.py\<close> does not declare:
  \<^item> \<open>Rule_return_days\<close>: \<open>rule.return_days\<close> raises \<open>AttributeError\<close>;
  \<^item> \<open>Rule_send_notification\<close>: \<open>rule.send_notification\<close> raises \<open>AttributeError\<close>;
  \<^item> \<open>Application_restored_at\<close>: \<open>application.save(update_fields=['status',
    'restored_at'])\<close> raises \<open>ValueError\<close>, since \<open>restored_at\<close> is not a field of
    the model (the assignment \<open>application.restored_at = ...\<close> before it only sets an
    attribute of the Python object).

  \<open>ShopifyClient.update_product\<close> returns \<open>None\<close> or the parsed JSON object, of which
  the tasks inspect the keys only.
\<close>

datatype step =
    Product_save | Log_create | Application_save | Enqueue_notification
  | Remote_update
  | Rule_return_days | Rule_send_notification | Application_restored_at

record env =
  update_product :: "int \<Rightarrow> string \<Rightarrow> string list option"
  raises :: "step \<Rightarrow> bool"

text \<open>The test \<open>response and 'product' in response\<close>.\<close>

definition response_has_product :: "string list option \<Rightarrow> bool" where
  "response_has_product response =
     (case response of None \<Rightarrow> False | Some ks \<Rightarrow> ks \<noteq> [] \<and> ''product'' \<in> set ks)"

text \<open>The dictionaries the tasks return, by their \<open>'status'\<close> entry.\<close>

datatype outcome =
    Skipped string
  | Deferred "time option"
  | Success string
  | Error_not_found nat
  | Error string
  | Error_raised step

fun status_of :: "outcome \<Rightarrow> string" where
  "status_of (Skipped _) = ''skipped''"
| "status_of (Deferred _) = ''deferred''"
| "status_of (Success _) = ''success''"
| "status_of (Error_not_found _) = ''error''"
| "status_of (Error _) = ''error''"
| "status_of (Error_raised _) = ''error''"

section \<open>Queries and writes shared by the tasks\<close>

definition get_application :: "state \<Rightarrow> nat \<Rightarrow> rule_application option" where
  "get_application s i = find (\<lambda>a. ra_id a = i) (applications s)"

definition get_rule :: "state \<Rightarrow> nat \<Rightarrow> rule option" where
  "get_rule s i = find (\<lambda>r. r_id r = i) (rules s)"

text \<open>\<open>instance.save()\<close> on a rule application: an UPDATE of the row with that primary key.\<close>

definition save_application :: "rule_application \<Rightarrow> state \<Rightarrow> state" where
  "save_application a s =
     s\<lparr>applications := map (\<lambda>x. if ra_id x = ra_id a then a else x) (applications s)\<rparr>"

definition save_product :: "product_key \<Rightarrow> product \<Rightarrow> state \<Rightarrow> state" where
  "save_product k p s = s\<lparr>products := fmupd k p (products s)\<rparr>"

definition create_log :: "inventory_log \<Rightarrow> state \<Rightarrow> state" where
  "create_log l s = s\<lparr>logs := logs s @ [l]\<rparr>"

definition enqueue :: "task \<Rightarrow> state \<Rightarrow> state" where
  "enqueue t s = s\<lparr>queue := queue s @ [t]\<rparr>"

text \<open>The pending applications of a (rule, product) pair:
  \<open>RuleApplication.objects.filter(rule=rule, product=product, status='pending')\<close>.\<close>

definition pending_for :: "state \<Rightarrow> nat \<Rightarrow> product_key \<Rightarrow> rule_application list" where
  "pending_for s rid pk =
     filter (\<lambda>a. ra_rule a = rid \<and> ra_product a = pk \<and> ra_status a = ''pending'') (applications s)"

definition status_log :: "nat \<Rightarrow> product_key \<Rightarrow> string \<Rightarrow> string \<Rightarrow> string \<Rightarrow> string \<Rightarrow> time
    \<Rightarrow> inventory_log" where
  "status_log st pk action previous new notes now =
     \<lparr>log_store = st, log_product = Some pk, log_variant = None, log_location = None,
      log_action = action, log_previous_value = None, log_new_value = None,
      log_previous_status = Some previous, log_new_status = Some new,
      log_notes = Some notes, log_created_at = now\<rparr>"

section \<open>The rule tasks of \<open>apps/inventory/tasks.py\<close>\<close>

text \<open>\<open>apply_rule\<close>, the branch taken after \<open>client.update_product\<close> answered with a
  product: each write may raise, which ends the task in \<open>except Exception\<close> with the
  earlier writes in place (this function opens no transaction). An exception of
  \<open>client.update_product\<close> itself ends the task in the same handler, before any write.\<close>

definition tasks_hide_product ::
    "env \<Rightarrow> time \<Rightarrow> rule_application \<Rightarrow> rule \<Rightarrow> product \<Rightarrow> state \<Rightarrow> outcome \<times> state" where
  "tasks_hide_product env now rule_app rule product s =
     (if raises env Product_save then (Error_raised Product_save, s)
      else
        let old_status = p_status product;
            s1 = save_product (ra_product rule_app)
                   (product\<lparr>p_status := ''draft'', p_is_visible := False,
                            p_hidden_at := Some now, p_updated_at := now\<rparr>) s
        in if raises env Log_create then (Error_raised Log_create, s1)
           else
             let s2 = create_log (status_log (r_store rule) (ra_product rule_app) ''hide''
                        old_status ''draft'' (''Hidden by rule: '' @ r_name rule) now) s1
             in if raises env Application_save then (Error_raised Application_save, s2)
                else
                  let s3 = save_application
                             (rule_app\<lparr>ra_status := ''applied'', ra_applied_at := Some now\<rparr>) s2
                  in if raises env Enqueue_notification then (Error_raised Enqueue_notification, s3)
                     else (Success ''hide_product'',
                           enqueue (Notify_rule_applied (r_store rule) (r_id rule)
                                      (ra_product rule_app)) s3))"

definition tasks_mark_failed ::
    "env \<Rightarrow> rule_application \<Rightarrow> string \<Rightarrow> state \<Rightarrow> outcome \<times> state" where
  "tasks_mark_failed env rule_app message s =
     (if raises env Application_save then (Error_raised Application_save, s)
      else (Error message,
            save_application (rule_app\<lparr>ra_status := ''failed'', ra_notes := Some message\<rparr>) s))"

definition tasks_apply_rule :: "env \<Rightarrow> time \<Rightarrow> nat \<Rightarrow> state \<Rightarrow> outcome \<times> state" where
  "tasks_apply_rule env now rule_application_id s =
     (case get_application s rule_application_id of
        None \<Rightarrow> (Error_not_found rule_application_id, s)
      | Some rule_app \<Rightarrow>
          if ra_status rule_app \<noteq> ''pending''
          then (Skipped (''Rule already in status: '' @ ra_status rule_app), s)
          else if (case ra_scheduled_for rule_app of None \<Rightarrow> False | Some t \<Rightarrow> now < t)
          then (Deferred (ra_scheduled_for rule_app), s)
          else
            (case (get_rule s (ra_rule rule_app), fmlookup (products s) (ra_product rule_app)) of
               (Some rule, Some product) \<Rightarrow>
                 if r_action_type rule = ''hide_product''
                 then
                   (if raises env Remote_update then (Error_raised Remote_update, s)
                    else if response_has_product
                         (update_product env (snd (ra_product rule_app)) ''draft'')
                    then tasks_hide_product env now rule_app rule product s
                    else tasks_mark_failed env rule_app
                           ''Failed to update product in Shopify'' s)
                 else tasks_mark_failed env rule_app
                        (''Unsupported action type: '' @ r_action_type rule) s
             | _ \<Rightarrow> (Error_not_found rule_application_id, s)))"

text \<open>\<open>restore_product\<close> of \<open>tasks.py\<close>.\<close>

definition tasks_show_product ::
    "env \<Rightarrow> time \<Rightarrow> rule_application \<Rightarrow> rule \<Rightarrow> product \<Rightarrow> state \<Rightarrow> outcome \<times> state" where
  "tasks_show_product env now rule_app rule product s =
     (if raises env Product_save then (Error_raised Product_save, s)
      else
        let old_status = p_status product;
            s1 = save_product (ra_product rule_app)
                   (product\<lparr>p_status := ''active'', p_is_visible := True, p_updated_at := now\<rparr>) s
        in if raises env Log_create then (Error_raised Log_create, s1)
           else
             let s2 = create_log (status_log (r_store rule) (ra_product rule_app) ''show''
                        old_status ''active'' (''Restored by rule: '' @ r_name rule) now) s1
             in if raises env Application_save then (Error_raised Application_save, s2)
                else (Success ''show_product'',
                      save_application (rule_app\<lparr>ra_status := ''reversed''\<rparr>) s2))"

definition tasks_restore_product :: "env \<Rightarrow> time \<Rightarrow> nat \<Rightarrow> state \<Rightarrow> outcome \<times> state" where
  "tasks_restore_product env now rule_application_id s =
     (case get_application s rule_application_id of
        None \<Rightarrow> (Error_not_found rule_application_id, s)
      | Some rule_app \<Rightarrow>
          if ra_status rule_app = ''reversed'' then (Skipped ''Rule already reversed'', s)
          else if ra_status rule_app \<noteq> ''applied''
          then (Skipped (''Rule not in applied status: '' @ ra_status rule_app), s)
          else
            (case (get_rule s (ra_rule rule_app), fmlookup (products s) (ra_product rule_app)) of
               (Some rule, Some product) \<Rightarrow>
                 if r_action_type rule = ''hide_product''
                 then
                   (if raises env Remote_update then (Error_raised Remote_update, s)
                    else if response_has_product
                         (update_product env (snd (ra_product rule_app)) ''active'')
                    then tasks_show_product env now rule_app rule product s
                    else (Error ''Failed to update product in Shopify'', s))
                 else (Error (''Unsupported action type: '' @ r_action_type rule), s)
             | _ \<Rightarrow> (Error_not_found rule_application_id, s)))"

section \<open>The rule tasks of \<open>apps/inventory/tasks/rule_tasks.py\<close>\<close>

text \<open>
  The body of \<open>apply_rule\<close> inside \<open>transaction.atomic()\<close>, after the status guard. It
  returns the step that raised, if one did, and the state reached. This module calls no
  remote API.

  The branch \<open>schedule_return\<close> starts with \<open>rule.return_days\<close>, which raises before any
  write. \<open>product.save(update_fields=['is_visible', 'hidden_at'])\<close> writes these two
  columns only.
\<close>

definition rule_tasks_apply_action ::
    "env \<Rightarrow> time \<Rightarrow> rule_application \<Rightarrow> rule \<Rightarrow> product \<Rightarrow> state
      \<Rightarrow> step option \<times> product \<times> state" where
  "rule_tasks_apply_action env now application rule product s =
     (if r_action_type rule = ''hide_product'' then
        (if raises env Product_save then (Some Product_save, product, s)
         else
           let product1 = product\<lparr>p_is_visible := False, p_hidden_at := Some now\<rparr>
           in (None, product1, save_product (ra_product application) product1 s))
      else if r_action_type rule = ''schedule_return'' then (Some Rule_return_days, product, s)
      else (None, product, s))"

text \<open>
  After the action: the application is saved as \<open>applied\<close>, the log row is created, and
  then \<open>if rule.send_notification:\<close> raises. No path of the body reaches its
  \<open>return\<close>.
\<close>

definition rule_tasks_apply_body ::
    "env \<Rightarrow> time \<Rightarrow> rule_application \<Rightarrow> rule \<Rightarrow> product \<Rightarrow> state \<Rightarrow> step option \<times> state" where
  "rule_tasks_apply_body env now application rule product s =
     (case rule_tasks_apply_action env now application rule product s of
        (Some raised, _, s1) \<Rightarrow> (Some raised, s1)
      | (None, product1, s1) \<Rightarrow>
          if raises env Application_save then (Some Application_save, s1)
          else
            let s2 = save_application
                       (application\<lparr>ra_status := ''applied'', ra_applied_at := Some now\<rparr>) s1
            in if raises env Log_create then (Some Log_create, s2)
               else
                 let s3 = create_log (status_log (fst (ra_product application))
                            (ra_product application) ''rule''
                            (if p_is_visible product1 then ''visible'' else ''hidden'') ''hidden''
                            (''Rule '' @ [CHR 0x27] @ r_name rule @ [CHR 0x27] @ '' applied'') now) s2
                 in (Some Rule_send_notification, s3))"

text \<open>
  Leaving \<open>transaction.atomic()\<close> by an exception rolls the database back; what was handed
  to the queue stays there.
\<close>

definition rollback :: "state \<Rightarrow> state \<Rightarrow> state" where
  "rollback s s_raised = s\<lparr>queue := queue s_raised\<rparr>"

definition rule_tasks_apply_rule :: "env \<Rightarrow> time \<Rightarrow> nat \<Rightarrow> state \<Rightarrow> outcome \<times> state" where
  "rule_tasks_apply_rule env now rule_application_id s =
     (case get_application s rule_application_id of
        None \<Rightarrow> (Error_not_found rule_application_id, s)
      | Some application \<Rightarrow>
          if ra_status application \<noteq> ''pending''
          then (Skipped (''Status is '' @ ra_status application), s)
          else
            (case (get_rule s (ra_rule application), fmlookup (products s) (ra_product application)) of
               (Some rule, Some product) \<Rightarrow>
                 (case rule_tasks_apply_body env now application rule product s of
                    (Some raised, s1) \<Rightarrow> (Error_raised raised, rollback s s1)
                  | (None, s1) \<Rightarrow> (Success (r_action_type rule), s1))
             | _ \<Rightarrow> (Error_not_found rule_application_id, s)))"

text \<open>
  The body of \<open>restore_product\<close> inside \<open>transaction.atomic()\<close>, after the status
  guard: the product is saved as visible, the log row is created, and then
  \<open>application.save(update_fields=['status', 'restored_at'])\<close> raises. No path of the
  body reaches its \<open>return\<close>.
\<close>

definition rule_tasks_restore_body ::
    "env \<Rightarrow> time \<Rightarrow> rule_application \<Rightarrow> rule \<Rightarrow> product \<Rightarrow> state \<Rightarrow> step option \<times> state" where
  "rule_tasks_restore_body env now application rule product s =
     (if raises env Product_save then (Some Product_save, s)
      else
        let s1 = save_product (ra_product application)
                   (product\<lparr>p_is_visible := True, p_hidden_at := None,
                            p_scheduled_return := None\<rparr>) s
        in if raises env Log_create then (Some Log_create, s1)
           else
             let s2 = create_log (status_log (fst (ra_product application))
                        (ra_product application) ''schedule'' ''hidden'' ''visible''
                        (''Product restored after rule '' @ [CHR 0x27] @ r_name rule @ [CHR 0x27])
                        now) s1
             in (Some Application_restored_at, s2))"

definition rule_tasks_restore_product :: "env \<Rightarrow> time \<Rightarrow> nat \<Rightarrow> state \<Rightarrow> outcome \<times> state" where
  "rule_tasks_restore_product env now rule_application_id s =
     (case get_application s rule_application_id of
        None \<Rightarrow> (Error_not_found rule_application_id, s)
      | Some application \<Rightarrow>
          if ra_status application \<noteq> ''applied''
          then (Skipped (''Status is '' @ ra_status application), s)
          else
            (case (get_rule s (ra_rule application), fmlookup (products s) (ra_product application)) of
               (Some rule, Some product) \<Rightarrow>
                 (case rule_tasks_restore_body env now application rule product s of
                    (Some raised, s1) \<Rightarrow> (Error_raised raised, rollback s s1)
                  | (None, s1) \<Rightarrow> (Success ''restore'', s1))
             | _ \<Rightarrow> (Error_not_found rule_application_id, s)))"

section \<open>Scheduling (\<open>schedule_rule_application\<close>, \<open>process_out_of_stock_rules\<close>)\<close>

text \<open>The exceptions that leave \<open>schedule_rule_application\<close>, which has no handler.\<close>

datatype exn = MultipleObjectsReturned | TypeError string

text \<open>
  \<open>tasks/rule_tasks.py\<close>: an existence check, then \<open>RuleApplication.objects.create(rule=
  rule, product=product, status='pending', scheduled_at=apply_at)\<close>. The model has no
  \<open>scheduled_at\<close>, so the constructor raises \<open>TypeError\<close> (unexpected keyword argument)
  before any row is written, and the lines after it are not reached.
\<close>

definition rule_tasks_schedule_rule_application ::
    "time \<Rightarrow> rule \<Rightarrow> product_key \<Rightarrow> state \<Rightarrow> exn + state" where
  "rule_tasks_schedule_rule_application now rule product s =
     (if pending_for s (r_id rule) product \<noteq> [] then Inr s
      else Inl (TypeError ''scheduled_at''))"





section \<open>Store synchronisation (\<open>apps/inventory/tasks/sync_tasks.py\<close>)\<close>

text \<open>
  What the remote catalog delivers. A product carries its variants; \<open>vd_sku\<close>,
  \<open>vd_barcode\<close> and \<open>vd_compare_at_price\<close> are \<open>None\<close> when the attribute is absent
  or \<open>None\<close> (the task tests \<open>hasattr\<close> and truth). \<open>vd_position\<close> is \<open>None\<close>
  when the attribute is absent (the task tests \<open>hasattr\<close> only); a position that is
  present and \<open>None\<close> would be written to a column that does not take it, and is not a
  value of this record. A page of products, and the inventory levels of an inventory item,
  are \<open>None\<close> when the call raises.
\<close>

record level_data =
  ld_location_id :: int
  ld_available :: "int option"

record variant_data =
  vd_id :: int
  vd_title :: string
  vd_price :: string
  vd_inventory_item_id :: int
  vd_sku :: "string option"
  vd_barcode :: "string option"
  vd_compare_at_price :: "string option"
  vd_position :: "int option"

record product_data =
  pd_id :: int
  pd_title :: string
  pd_handle :: string
  pd_status :: string
  pd_product_type :: "string option"
  pd_vendor :: "string option"
  pd_published_at :: "time option"
  pd_variants :: "variant_data list"

record remote =
  session_ok :: bool
  product_pages :: "product_data list option list"
  inventory_levels :: "int \<Rightarrow> level_data list option"

datatype sync_result = Sync_success string | Sync_error string | Sync_retry

definition record_call :: "remote_call \<Rightarrow> state \<Rightarrow> state" where
  "record_call c s = s\<lparr>remote_calls := remote_calls s @ [c]\<rparr>"

text \<open>Decimal digits of a number, for \<open>f"Location {level_data.location_id}"\<close>.\<close>

function string_of_nat :: "nat \<Rightarrow> string" where
  "string_of_nat n =
     (if n < 10 then [char_of (48 + n)]
      else string_of_nat (n div 10) @ [char_of (48 + n mod 10)])"
  by pat_completeness auto
termination
  by (relation "measure id") auto

definition string_of_int :: "int \<Rightarrow> string" where
  "string_of_int i = (if i < 0 then CHR ''-'' # string_of_nat (nat (- i)) else string_of_nat (nat i))"

subsection \<open>The writes, table by table\<close>

text \<open>\<open>Product.objects.update_or_create(store=store, shopify_id=..., defaults={...})\<close>:
  the row of the key gets the defaults, a missing row is created with the column defaults
  of the model first. Every save stamps \<open>updated_at\<close> (\<open>auto_now\<close>).\<close>

definition new_product :: "time \<Rightarrow> product" where
  "new_product now =
     \<lparr>p_title = [], p_handle = [], p_product_type = None, p_vendor = None, p_status = ''active'',
      p_published_at = None, p_created_at = now, p_updated_at = now, p_last_synced = now,
      p_is_visible = True, p_hidden_at = None, p_scheduled_return = None\<rparr>"

definition products_upsert ::
    "time \<Rightarrow> product_key \<Rightarrow> product_data \<Rightarrow> (product_key, product) fmap
      \<Rightarrow> (product_key, product) fmap" where
  "products_upsert now k pd tbl =
     fmupd k
       ((case fmlookup tbl k of None \<Rightarrow> new_product now | Some p \<Rightarrow> p)
          \<lparr>p_title := pd_title pd, p_handle := pd_handle pd, p_status := pd_status pd,
           p_product_type := pd_product_type pd, p_vendor := pd_vendor pd,
           p_published_at := pd_published_at pd, p_last_synced := now, p_updated_at := now\<rparr>)
       tbl"

text \<open>The variant defaults hold \<open>sku\<close>, \<open>barcode\<close> and \<open>compare_at_price\<close> only when
  the remote value is truthy, and \<open>position\<close> only when the attribute exists.\<close>

definition new_variant :: "time \<Rightarrow> product_variant" where
  "new_variant now =
     \<lparr>v_title = [], v_sku = None, v_barcode = None, v_price = [], v_compare_at_price = None,
      v_position = 1, v_created_at = now, v_updated_at = now, v_inventory_item_id = 0\<rparr>"

definition variants_upsert ::
    "time \<Rightarrow> variant_key \<Rightarrow> variant_data \<Rightarrow> (variant_key, product_variant) fmap
      \<Rightarrow> (variant_key, product_variant) fmap" where
  "variants_upsert now k vd tbl =
     (let v = (case fmlookup tbl k of None \<Rightarrow> new_variant now | Some v \<Rightarrow> v)
      in fmupd k
           (v\<lparr>v_title := vd_title vd, v_price := vd_price vd,
              v_inventory_item_id := vd_inventory_item_id vd,
              v_sku := (if truthy (vd_sku vd) then vd_sku vd else v_sku v),
              v_barcode := (if truthy (vd_barcode vd) then vd_barcode vd else v_barcode v),
              v_compare_at_price :=
                (if truthy (vd_compare_at_price vd) then vd_compare_at_price vd
                 else v_compare_at_price v),
              v_position := (case vd_position vd of None \<Rightarrow> v_position v | Some n \<Rightarrow> n),
              v_updated_at := now\<rparr>)
           tbl)"

text \<open>\<open>InventoryLocation.objects.get_or_create(store=store, shopify_id=..., defaults=
  {'name': ...})\<close>: an existing row is left alone.\<close>

definition locations_get_or_create ::
    "time \<Rightarrow> location_key \<Rightarrow> (location_key, inventory_location) fmap
      \<Rightarrow> (location_key, inventory_location) fmap" where
  "locations_get_or_create now k tbl =
     (case fmlookup tbl k of
        Some _ \<Rightarrow> tbl
      | None \<Rightarrow>
          fmupd k \<lparr>loc_name = ''Location '' @ string_of_int (snd k), loc_is_active = True,
                   loc_created_at = now, loc_updated_at = now\<rparr> tbl)"

text \<open>\<open>InventoryLevel.objects.update_or_create(variant=variant, location=location,
  defaults={'available': level_data.available or 0, 'last_synced': now})\<close>.\<close>

definition levels_upsert ::
    "time \<Rightarrow> level_key \<Rightarrow> level_data \<Rightarrow> (level_key, inventory_level) fmap
      \<Rightarrow> (level_key, inventory_level) fmap" where
  "levels_upsert now k ld tbl =
     fmupd k
       ((case fmlookup tbl k of
           None \<Rightarrow> \<lparr>lv_available = 0, lv_updated_at = now, lv_last_synced = now\<rparr>
         | Some l \<Rightarrow> l)
          \<lparr>lv_available := (case ld_available ld of None \<Rightarrow> 0 | Some a \<Rightarrow> a),
           lv_last_synced := now, lv_updated_at := now\<rparr>)
       tbl"

text \<open>The two \<open>filter(...).exclude(shopify_id__in=...).update(updated_at=now)\<close> queries:
  the rows of the product (of the store) that the pass did not see get a new
  \<open>updated_at\<close>, nothing else.\<close>

definition variants_touch_unsynced ::
    "time \<Rightarrow> product_key \<Rightarrow> int list \<Rightarrow> (variant_key, product_variant) fmap
      \<Rightarrow> (variant_key, product_variant) fmap" where
  "variants_touch_unsynced now pk synced tbl =
     fmmap_keys (\<lambda>k v. if fst k = pk \<and> snd k \<notin> set synced then v\<lparr>v_updated_at := now\<rparr> else v) tbl"

definition products_touch_unsynced ::
    "time \<Rightarrow> nat \<Rightarrow> int list \<Rightarrow> (product_key, product) fmap \<Rightarrow> (product_key, product) fmap" where
  "products_touch_unsynced now sid synced tbl =
     fmmap_keys (\<lambda>k p. if fst k = sid \<and> snd k \<notin> set synced then p\<lparr>p_updated_at := now\<rparr> else p) tbl"

subsection \<open>The loops of step 4\<close>

text \<open>One inventory level of a variant: the location first, then the level.\<close>

definition sync_level :: "time \<Rightarrow> nat \<Rightarrow> variant_key \<Rightarrow> level_data \<Rightarrow> state \<Rightarrow> state" where
  "sync_level now sid vk ld s =
     (let lk = (sid, ld_location_id ld);
          s1 = s\<lparr>locations := locations_get_or_create now lk (locations s)\<rparr>
      in s1\<lparr>levels := levels_upsert now (vk, lk) ld (levels s1)\<rparr>)"

text \<open>One variant: the upsert, then the inventory levels of its inventory item inside a
  \<open>try\<close> whose handler logs a warning and goes on.\<close>

definition sync_variant ::
    "remote \<Rightarrow> time \<Rightarrow> nat \<Rightarrow> product_key \<Rightarrow> variant_data \<Rightarrow> state \<Rightarrow> state" where
  "sync_variant rem now sid pk vd s =
     (let vk = (pk, vd_id vd);
          s1 = s\<lparr>variants := variants_upsert now vk vd (variants s)\<rparr>;
          s2 = record_call (InventoryLevel_find (vd_inventory_item_id vd)) s1
      in case inventory_levels rem (vd_inventory_item_id vd) of
           None \<Rightarrow> s2
         | Some lds \<Rightarrow> fold (sync_level now sid vk) lds s2)"

text \<open>One product of the fetched list.\<close>

definition sync_product_data ::
    "remote \<Rightarrow> time \<Rightarrow> nat \<Rightarrow> product_data \<Rightarrow> state \<Rightarrow> state" where
  "sync_product_data rem now sid pd s =
     (let pk = (sid, pd_id pd);
          s1 = s\<lparr>products := products_upsert now pk pd (products s)\<rparr>;
          s2 = fold (sync_variant rem now sid pk) (pd_variants pd) s1
      in s2\<lparr>variants := variants_touch_unsynced now pk (map vd_id (pd_variants pd)) (variants s2)\<rparr>)"

definition process_products ::
    "remote \<Rightarrow> time \<Rightarrow> nat \<Rightarrow> product_data list \<Rightarrow> state \<Rightarrow> state" where
  "process_products rem now sid all_products s =
     (let s1 = fold (sync_product_data rem now sid) all_products s
      in s1\<lparr>products := products_touch_unsynced now sid (map pd_id all_products) (products s1)\<rparr>)"

subsection \<open>The task\<close>

text \<open>Step 3: \<open>shopify.Product.find(limit=250)\<close> and \<open>page.next_page()\<close> until
  \<open>has_next_page()\<close> is false; the first call that raises ends the fetch.\<close>

fun fetch_pages :: "product_data list option list \<Rightarrow> state \<Rightarrow> product_data list option \<times> state" where
  "fetch_pages [] s = (Some [], s)"
| "fetch_pages (None # rest) s = (None, record_call Product_page s)"
| "fetch_pages (Some page # rest) s =
     (case fetch_pages rest (record_call Product_page s) of
        (None, s1) \<Rightarrow> (None, s1)
      | (Some ps, s1) \<Rightarrow> (Some (page @ ps), s1))"

text \<open>\<open>store.sync_status = 'failed'; store.save(update_fields=['sync_status'])\<close>.\<close>

definition set_sync_status :: "nat \<Rightarrow> string \<Rightarrow> state \<Rightarrow> state" where
  "set_sync_status sid status s =
     (case fmlookup (stores s) sid of
        None \<Rightarrow> s
      | Some st \<Rightarrow> s\<lparr>stores := fmupd sid (st\<lparr>st_sync_status := status\<rparr>) (stores s)\<rparr>)"

text \<open>
  The body of \<open>sync_store_data\<close> without its \<open>finally\<close> clause. \<open>raise self.retry(...)\<close>
  inside the inner handlers is caught by the outer \<open>except Exception\<close>, which stores
  \<open>failed\<close> once more and raises the retry again: the result is \<open>Sync_retry\<close>.
\<close>

definition sync_store_data_body :: "remote \<Rightarrow> time \<Rightarrow> nat \<Rightarrow> state \<Rightarrow> sync_result \<times> state" where
  "sync_store_data_body rem now store_id s =
     (case fmlookup (stores s) store_id of
        None \<Rightarrow> (Sync_error (''Store with ID '' @ string_of_nat store_id @ '' not found''), s)
      | Some store \<Rightarrow>
          if \<not> truthy (st_access_token store)
          then (Sync_error (''Store '' @ st_shop_url store @ '' has no access token''),
                set_sync_status store_id ''failed'' s)
          else
            let s1 = record_call Activate_session s
            in if \<not> session_ok rem
               then (Sync_retry, set_sync_status store_id ''failed'' s1)
               else
                 (case fetch_pages (product_pages rem) s1 of
                    (None, s2) \<Rightarrow> (Sync_retry, set_sync_status store_id ''failed'' s2)
                  | (Some all_products, s2) \<Rightarrow>
                      let s3 = process_products rem now store_id all_products s2
                      in (Sync_success (''Successfully synced store '' @ st_shop_url store),
                          s3\<lparr>stores := fmupd store_id
                                (store\<lparr>st_last_sync_at := Some now, st_sync_status := ''success''\<rparr>)
                                (stores s3)\<rparr>)))"

text \<open>The \<open>finally\<close> clause clears the session on every path.\<close>

definition sync_store_data :: "remote \<Rightarrow> time \<Rightarrow> nat \<Rightarrow> state \<Rightarrow> sync_result \<times> state" where
  "sync_store_data rem now store_id s =
     (case sync_store_data_body rem now store_id s of
        (result, s1) \<Rightarrow> (result, record_call Clear_session s1))"

text \<open>The rows without the timestamps of synchronisation: \<open>updated_at\<close> and
  \<open>last_synced\<close> of products, variants and levels, \<open>last_sync_at\<close> of stores.\<close>

definition product_without_times :: "product \<Rightarrow> product" where
  "product_without_times p = p\<lparr>p_updated_at := 0, p_last_synced := 0\<rparr>"

definition variant_without_times :: "product_variant \<Rightarrow> product_variant" where
  "variant_without_times v = v\<lparr>v_updated_at := 0\<rparr>"

definition level_without_times :: "inventory_level \<Rightarrow> inventory_level" where
  "level_without_times l = l\<lparr>lv_updated_at := 0, lv_last_synced := 0\<rparr>"

definition store_without_times :: "store \<Rightarrow> store" where
  "store_without_times st = st\<lparr>st_last_sync_at := None\<rparr>"

text \<open>A state with these timestamps and the log of remote calls blanked. Every other
  column of every table, and the set of rows of every table, is kept.\<close>

definition without_sync_times :: "state \<Rightarrow> state" where
  "without_sync_times s =
     s\<lparr>products := fmmap product_without_times (products s),
       variants := fmmap variant_without_times (variants s),
       levels := fmmap level_without_times (levels s),
       stores := fmmap store_without_times (stores s),
       remote_calls := []\<rparr>"

section \<open>Tables as folds of writes\<close>

text \<open>
  A pass of \<open>process_products\<close> performs, on each table, a sequence of writes by key that
  is determined by the remote catalog alone. The definitions below name these sequences;
  the theorems show that the loops of \<open>sync_store_data\<close> perform them.
\<close>

definition level_list :: "remote \<Rightarrow> variant_data \<Rightarrow> level_data list" where
  "level_list rem vd =
     (case inventory_levels rem (vd_inventory_item_id vd) of None \<Rightarrow> [] | Some lds \<Rightarrow> lds)"

definition level_items ::
    "remote \<Rightarrow> nat \<Rightarrow> product_key \<Rightarrow> variant_data \<Rightarrow> (level_key \<times> level_data) list" where
  "level_items rem sid pk vd =
     map (\<lambda>ld. (((pk, vd_id vd), (sid, ld_location_id ld)), ld)) (level_list rem vd)"

definition variant_items :: "nat \<Rightarrow> product_data \<Rightarrow> (variant_key \<times> variant_data) list" where
  "variant_items sid pd = map (\<lambda>vd. (((sid, pd_id pd), vd_id vd), vd)) (pd_variants pd)"

definition product_level_items ::
    "remote \<Rightarrow> nat \<Rightarrow> product_data \<Rightarrow> (level_key \<times> level_data) list" where
  "product_level_items rem sid pd =
     concat (map (level_items rem sid (sid, pd_id pd)) (pd_variants pd))"

definition catalog_level_items ::
    "remote \<Rightarrow> nat \<Rightarrow> product_data list \<Rightarrow> (level_key \<times> level_data) list" where
  "catalog_level_items rem sid pds = concat (map (product_level_items rem sid) pds)"

definition products_apply ::
    "time \<Rightarrow> nat \<Rightarrow> product_data list \<Rightarrow> (product_key, product) fmap
      \<Rightarrow> (product_key, product) fmap" where
  "products_apply now sid pds = fold (\<lambda>pd. products_upsert now (sid, pd_id pd) pd) pds"

definition variants_apply ::
    "time \<Rightarrow> (variant_key \<times> variant_data) list \<Rightarrow> (variant_key, product_variant) fmap
      \<Rightarrow> (variant_key, product_variant) fmap" where
  "variants_apply now items = fold (\<lambda>(k, vd). variants_upsert now k vd) items"

definition locations_apply ::
    "time \<Rightarrow> (level_key \<times> level_data) list \<Rightarrow> (location_key, inventory_location) fmap
      \<Rightarrow> (location_key, inventory_location) fmap" where
  "locations_apply now items = fold (\<lambda>(k, ld). locations_get_or_create now (snd k)) items"

definition levels_apply ::
    "time \<Rightarrow> (level_key \<times> level_data) list \<Rightarrow> (level_key, inventory_level) fmap
      \<Rightarrow> (level_key, inventory_level) fmap" where
  "levels_apply now items = fold (\<lambda>(k, ld). levels_upsert now k ld) items"

text \<open>The variants table after the products of a pass: per product, the upserts of its
  variants, then the new \<open>updated_at\<close> of its other variants.\<close>

definition catalog_variants ::
    "time \<Rightarrow> nat \<Rightarrow> product_data list \<Rightarrow> (variant_key, product_variant) fmap
      \<Rightarrow> (variant_key, product_variant) fmap" where
  "catalog_variants now sid pds =
     fold (\<lambda>pd m. variants_touch_unsynced now (sid, pd_id pd) (map vd_id (pd_variants pd))
                    (variants_apply now (variant_items sid pd) m)) pds"

text \<open>What \<open>fetch_pages\<close> returns and the calls it makes.\<close>

fun collect_pages :: "product_data list option list \<Rightarrow> product_data list option" where
  "collect_pages [] = Some []"
| "collect_pages (None # rest) = None"
| "collect_pages (Some page # rest) =
     (case collect_pages rest of None \<Rightarrow> None | Some ps \<Rightarrow> Some (page @ ps))"

fun page_calls :: "product_data list option list \<Rightarrow> remote_call list" where
  "page_calls [] = []"
| "page_calls (None # rest) = [Product_page]"
| "page_calls (Some page # rest) = Product_page # page_calls rest"

definition catalog_calls :: "product_data list \<Rightarrow> remote_call list" where
  "catalog_calls pds =
     concat (map (\<lambda>pd. map (\<lambda>vd. InventoryLevel_find (vd_inventory_item_id vd)) (pd_variants pd))
               pds)"

text \<open>A write by key on a table of rows: the new row is a function of the old one, if
  there is one.\<close>

definition upsert_row :: "'k \<times> ('r option \<Rightarrow> 'r) \<Rightarrow> ('k, 'r) fmap \<Rightarrow> ('k, 'r) fmap" where
  "upsert_row kw m = fmupd (fst kw) (snd kw (fmlookup m (fst kw))) m"

definition idempotent_write :: "('r option \<Rightarrow> 'r) \<Rightarrow> bool" where
  "idempotent_write w \<longleftrightarrow> (\<forall>r. w (Some (w r)) = w r)"

definition absorbs :: "('r option \<Rightarrow> 'r) \<Rightarrow> ('r option \<Rightarrow> 'r) \<Rightarrow> bool" where
  "absorbs w w' \<longleftrightarrow> (\<forall>r r'. w r = w r' \<longrightarrow> w (Some (w' r)) = w (Some (w' r')))"

definition absorbing :: "('k \<times> ('r option \<Rightarrow> 'r)) set \<Rightarrow> bool" where
  "absorbing W \<longleftrightarrow>
     (\<forall>a \<in> W. idempotent_write (snd a)) \<and>
     (\<forall>a \<in> W. \<forall>b \<in> W. fst a = fst b \<longrightarrow> absorbs (snd a) (snd b))"

definition same_on_rows :: "'k \<times> ('r option \<Rightarrow> 'r) \<Rightarrow> 'k \<times> ('r option \<Rightarrow> 'r) \<Rightarrow> bool" where
  "same_on_rows a b \<longleftrightarrow> fst a = fst b \<and> (\<forall>r. snd a (Some r) = snd b (Some r))"

text \<open>The writes of a pass on rows without the timestamps of synchronisation.\<close>

definition product_write :: "time \<Rightarrow> product_data \<Rightarrow> product option \<Rightarrow> product" where
  "product_write now pd r =
     (case r of None \<Rightarrow> new_product now | Some p \<Rightarrow> p)
       \<lparr>p_title := pd_title pd, p_handle := pd_handle pd, p_status := pd_status pd,
        p_product_type := pd_product_type pd, p_vendor := pd_vendor pd,
        p_published_at := pd_published_at pd, p_last_synced := 0, p_updated_at := 0\<rparr>"

definition variant_write :: "time \<Rightarrow> variant_data \<Rightarrow> product_variant option \<Rightarrow> product_variant" where
  "variant_write now vd r =
     (let v = (case r of None \<Rightarrow> new_variant now | Some v \<Rightarrow> v)
      in v\<lparr>v_title := vd_title vd, v_price := vd_price vd,
           v_inventory_item_id := vd_inventory_item_id vd,
           v_sku := (if truthy (vd_sku vd) then vd_sku vd else v_sku v),
           v_barcode := (if truthy (vd_barcode vd) then vd_barcode vd else v_barcode v),
           v_compare_at_price :=
             (if truthy (vd_compare_at_price vd) then vd_compare_at_price vd
              else v_compare_at_price v),
           v_position := (case vd_position vd of None \<Rightarrow> v_position v | Some n \<Rightarrow> n),
           v_updated_at := 0\<rparr>)"

definition location_write ::
    "time \<Rightarrow> location_key \<Rightarrow> inventory_location option \<Rightarrow> inventory_location" where
  "location_write now k r =
     (case r of
        Some l \<Rightarrow> l
      | None \<Rightarrow> \<lparr>loc_name = ''Location '' @ string_of_int (snd k), loc_is_active = True,
                  loc_created_at = now, loc_updated_at = now\<rparr>)"

definition level_write :: "time \<Rightarrow> level_data \<Rightarrow> inventory_level option \<Rightarrow> inventory_level" where
  "level_write now ld r =
     \<lparr>lv_available = (case ld_available ld of None \<Rightarrow> 0 | Some a \<Rightarrow> a),
      lv_updated_at = 0, lv_last_synced = 0\<rparr>"

definition product_writes ::
    "time \<Rightarrow> nat \<Rightarrow> product_data list \<Rightarrow> (product_key \<times> (product option \<Rightarrow> product)) list" where
  "product_writes now sid pds = map (\<lambda>pd. ((sid, pd_id pd), product_write now pd)) pds"

definition variant_writes ::
    "time \<Rightarrow> (variant_key \<times> variant_data) list
      \<Rightarrow> (variant_key \<times> (product_variant option \<Rightarrow> product_variant)) list" where
  "variant_writes now items = map (\<lambda>(k, vd). (k, variant_write now vd)) items"

definition location_writes ::
    "time \<Rightarrow> (level_key \<times> level_data) list
      \<Rightarrow> (location_key \<times> (inventory_location option \<Rightarrow> inventory_location)) list" where
  "location_writes now items = map (\<lambda>(k, ld). (snd k, location_write now (snd k))) items"

definition level_writes ::
    "time \<Rightarrow> (level_key \<times> level_data) list
      \<Rightarrow> (level_key \<times> (inventory_level option \<Rightarrow> inventory_level)) list" where
  "level_writes now items = map (\<lambda>(k, ld). (k, level_write now ld)) items"

section \<open>Product synchronisation (\<open>sync_product\<close> of \<open>apps/inventory/tasks.py\<close>)\<close>


















section \<open>The REST client (\<open>core/shopify/client.py\<close>)\<close>

text \<open>
  What one HTTP call of the \<open>requests\<close> library does: it raises a
  \<open>RequestException\<close>, or it returns a response with a status code, a \<open>Retry-After\<close>
  header and a body. Of the header the model keeps what \<open>int(...)\<close> makes of it:
  \<open>None\<close> when the header is absent, \<open>Some None\<close> when \<open>int\<close> raises \<open>ValueError\<close>
  on its text, \<open>Some (Some n)\<close> when it reads the integer \<open>n\<close>. Of the body it keeps the
  keys of the JSON object, \<open>None\<close> when \<open>response.json()\<close> raises (a
  \<open>JSONDecodeError\<close> of \<open>requests\<close>, which is a \<open>RequestException\<close>).
\<close>

datatype http_outcome =
    Raises_request_exception
  | Response nat "int option option" "string list option"

text \<open>The exceptions that \<open>_request\<close> does not catch.\<close>

datatype py_exception = ValueError | RecursionError

text \<open>\<open>response.raise_for_status()\<close> raises an \<open>HTTPError\<close> for the client and server
  error codes, 400 to 599, and for no other status.\<close>

definition raise_for_status_raises :: "nat \<Rightarrow> bool" where
  "raise_for_status_raises status = (400 \<le> status \<and> status < 600)"

text \<open>
  \<open>ShopifyClient._request\<close>. The server is the sequence of the outcomes of the
  successive HTTP calls, \<open>attempt\<close> the index of the next one. The method calls itself
  after a 429; \<open>depth\<close> is the number of frames the interpreter still allows, and the
  call that exceeds it raises \<open>RecursionError\<close>. \<open>time.sleep\<close> raises \<open>ValueError\<close>
  on a negative length.
\<close>

fun request ::
    "nat \<Rightarrow> string \<Rightarrow> (nat \<Rightarrow> http_outcome) \<Rightarrow> nat \<Rightarrow> py_exception + string list option" where
  "request 0 method server attempt = Inl RecursionError"
| "request (Suc depth) method server attempt =
     (if method \<notin> {''GET'', ''POST'', ''PUT'', ''DELETE''} then Inl ValueError
      else
        (case server attempt of
           Raises_request_exception \<Rightarrow> Inr None
         | Response status retry_after body \<Rightarrow>
             if status = 429
             then
               (case retry_after of
                  Some None \<Rightarrow> Inl ValueError
                | Some (Some n) \<Rightarrow>
                    if n < 0 then Inl ValueError
                    else request depth method server (Suc attempt)
                | None \<Rightarrow> request depth method server (Suc attempt))
             else if raise_for_status_raises status then Inr None
             else Inr body))"

text \<open>The wrappers: each is one call of \<open>_request\<close> with a fixed method.\<close>

definition get_products :: "nat \<Rightarrow> (nat \<Rightarrow> http_outcome) \<Rightarrow> py_exception + string list option" where
  "get_products depth server = request depth ''GET'' server 0"

definition get_product :: "nat \<Rightarrow> (nat \<Rightarrow> http_outcome) \<Rightarrow> py_exception + string list option" where
  "get_product depth server = request depth ''GET'' server 0"

definition client_update_product ::
    "nat \<Rightarrow> (nat \<Rightarrow> http_outcome) \<Rightarrow> py_exception + string list option" where
  "client_update_product depth server = request depth ''PUT'' server 0"

definition get_inventory_levels ::
    "nat \<Rightarrow> (nat \<Rightarrow> http_outcome) \<Rightarrow> py_exception + string list option" where
  "get_inventory_levels depth server = request depth ''GET'' server 0"

definition create_webhook :: "nat \<Rightarrow> (nat \<Rightarrow> http_outcome) \<Rightarrow> py_exception + string list option" where
  "create_webhook depth server = request depth ''POST'' server 0"

definition delete_webhook :: "nat \<Rightarrow> (nat \<Rightarrow> http_outcome) \<Rightarrow> py_exception + string list option" where
  "delete_webhook depth server = request depth ''DELETE'' server 0"

text \<open>The failures of a call that the claim about \<open>_request\<close> is about: the HTTP call
  raises, or the response carries an error status other than 429.\<close>

definition remote_failure :: "http_outcome \<Rightarrow> bool" where
  "remote_failure out =
     (case out of
        Raises_request_exception \<Rightarrow> True
      | Response status retry body \<Rightarrow> 400 \<le> status \<and> status < 600 \<and> status \<noteq> 429)"

section \<open>Example data\<close>

definition demo_store :: store where
  "demo_store = \<lparr>st_shop_url = ''demo.myshopify.com'', st_access_token = Some ''token'',
     st_is_active = True, st_sync_status = ''pending'', st_last_sync_at = None\<rparr>"

definition demo_product :: product where
  "demo_product = \<lparr>p_title = ''Shirt'', p_handle = ''shirt'', p_product_type = Some ''Shoes'',
     p_vendor = Some ''Acme'', p_status = ''active'', p_published_at = None, p_created_at = 0,
     p_updated_at = 0, p_last_synced = 0, p_is_visible = True, p_hidden_at = None,
     p_scheduled_return = None\<rparr>"

definition demo_rule :: rule where
  "demo_rule = \<lparr>r_id = 1, r_store = 1, r_name = ''Hide'', r_trigger_type = ''out_of_stock'',
     r_action_type = ''hide_product'', r_delay_minutes = 5, r_auto_restore = False,
     r_restore_after_days = 0, r_product_type_filter = Some ''Shoes'', r_vendor_filter = None,
     r_is_active = True, r_priority = 0\<rparr>"

definition demo_application :: rule_application where
  "demo_application = \<lparr>ra_id = 7, ra_rule = 1, ra_product = (1, 100), ra_status = ''pending'',
     ra_triggered_at = 0, ra_scheduled_for = Some 0, ra_applied_at = None,
     ra_restore_scheduled_for = None, ra_notes = None\<rparr>"

definition demo_state :: state where
  "demo_state = \<lparr>stores = fmupd 1 demo_store fmempty,
     products = fmupd (1, 100) demo_product fmempty, variants = fmempty, locations = fmempty,
     levels = fmempty, rules = [demo_rule], applications = [], next_application_id = 8,
     logs = [], queue = [], remote_calls = []\<rparr>"

text \<open>An environment in which the remote call succeeds and nothing raises.\<close>

definition demo_env :: env where
  "demo_env = \<lparr>update_product = (\<lambda>_ _. Some [''product'']), raises = (\<lambda>_. False)\<rparr>"

text \<open>A pending application of a rule whose action no task implements.\<close>

definition unsupported_state :: state where
  "unsupported_state = demo_state\<lparr>rules := [demo_rule\<lparr>r_action_type := ''tag_product''\<rparr>],
     applications := [demo_application]\<rparr>"

text \<open>An application that has already been applied to a hidden product.\<close>

definition applied_application :: rule_application where
  "applied_application = demo_application\<lparr>ra_status := ''applied'', ra_applied_at := Some 5\<rparr>"

definition applied_state :: state where
  "applied_state = demo_state\<lparr>
     products := fmupd (1, 100) (demo_product\<lparr>p_is_visible := False, p_hidden_at := Some 5,
                                   p_scheduled_return := Some 9\<rparr>) fmempty,
     applications := [applied_application]\<rparr>"

text \<open>A pending, due application of the hide rule, and an environment in which the
  creation of the log row raises.\<close>

definition pending_state :: state where
  "pending_state = demo_state\<lparr>applications := [demo_application]\<rparr>"

definition env_log_raises :: env where
  "env_log_raises = \<lparr>update_product = (\<lambda>_ _. Some [''product'']),
     raises = (\<lambda>st. st = Log_create)\<rparr>"

text \<open>A remote catalog of one product with one variant stocked at one location, and the
  demo store after its credential was cleared.\<close>

definition demo_variant_data :: variant_data where
  "demo_variant_data = \<lparr>vd_id = 11, vd_title = ''Small'', vd_price = ''10.00'',
     vd_inventory_item_id = 501, vd_sku = Some ''SKU-1'', vd_barcode = None,
     vd_compare_at_price = None, vd_position = Some 1\<rparr>"

definition demo_product_data :: product_data where
  "demo_product_data = \<lparr>pd_id = 100, pd_title = ''Shirt'', pd_handle = ''shirt'',
     pd_status = ''active'', pd_product_type = Some ''Shoes'', pd_vendor = Some ''Acme'',
     pd_published_at = None, pd_variants = [demo_variant_data]\<rparr>"

definition demo_remote :: remote where
  "demo_remote = \<lparr>session_ok = True, product_pages = [Some [demo_product_data]],
     inventory_levels = (\<lambda>i. if i = 501 then Some [\<lparr>ld_location_id = 9, ld_available = Some 0\<rparr>]
                              else None)\<rparr>"

definition revoked_state :: state where
  "revoked_state =
     demo_state\<lparr>stores := fmupd 1 (demo_store\<lparr>st_access_token := Some ''''\<rparr>) fmempty\<rparr>"





text \<open>An environment in which \<open>client.update_product\<close> raises.\<close>

definition env_remote_raises :: env where
  "env_remote_raises = \<lparr>update_product = (\<lambda>_ _. None), raises = (\<lambda>st. st = Remote_update)\<rparr>"
section \<open>Rule matcher: the conjunction of the filters\<close>

text \<open>
  Claim C9. \<open>rule_matches_product\<close> is a function of the rule and the product alone (it
  reads no state and writes none), and it returns the conjunction of the two filters: an
  unset or empty filter passes, a set filter passes exactly when it is string-equal to the
  product's attribute.
\<close>

theorem rule_matches_product_conjunction:
  "rule_matches_product rule product =
     (filter_passes (r_product_type_filter rule) (p_product_type product) \<and>
      filter_passes (r_vendor_filter rule) (p_vendor product))"
  by (auto simp: rule_matches_product_def filter_passes_def truthy_def split: option.splits)

text \<open>The comparison is case-sensitive, and an empty filter passes.\<close>

theorem rule_matches_product_conjunction_witness:
  "rule_matches_product demo_rule demo_product \<and>
   \<not> rule_matches_product demo_rule (demo_product\<lparr>p_product_type := Some ''shoes''\<rparr>) \<and>
   \<not> rule_matches_product (demo_rule\<lparr>r_vendor_filter := Some ''Other''\<rparr>) demo_product \<and>
   rule_matches_product (demo_rule\<lparr>r_vendor_filter := Some ''''\<rparr>) demo_product"
  using rule_matches_product_conjunction [of demo_rule demo_product]
    rule_matches_product_conjunction [of demo_rule "demo_product\<lparr>p_product_type := Some ''shoes''\<rparr>"]
    rule_matches_product_conjunction [of "demo_rule\<lparr>r_vendor_filter := Some ''Other''\<rparr>" demo_product]
    rule_matches_product_conjunction [of "demo_rule\<lparr>r_vendor_filter := Some ''''\<rparr>" demo_product]
  by (simp add: filter_passes_def demo_rule_def demo_product_def)

section \<open>The status guard of \<open>apply_rule\<close>\<close>

lemma find_map_replace:
  assumes "find (\<lambda>x. ra_id x = i) xs = Some a" and "ra_id b = i"
  shows "find (\<lambda>x. ra_id x = i) (map (\<lambda>x. if ra_id x = i then b else x) xs) = Some b"
  using assms by (induction xs) (auto split: if_splits)

lemma get_application_id: "get_application s i = Some a \<Longrightarrow> ra_id a = i"
  by (auto simp: get_application_def dest: find_Some_iff[THEN iffD1])

lemma get_application_save:
  assumes "get_application s i = Some a" and "ra_id b = i"
  shows "get_application (save_application b s) i = Some b"
  using assms by (simp add: get_application_def save_application_def find_map_replace)

text \<open>
  Claim C2. On a rule application whose status is not \<open>pending\<close>, \<open>apply_rule\<close> (in
  \<open>tasks.py\<close> and in \<open>tasks/rule_tasks.py\<close>) returns \<open>skipped\<close> and leaves the whole
  state as it was: no log row, nothing enqueued, no field of the application or of its
  product written.
\<close>

theorem apply_rule_not_pending_skipped:
  assumes "get_application s i = Some a" and "ra_status a \<noteq> ''pending''"
  shows "tasks_apply_rule env now i s = (Skipped (''Rule already in status: '' @ ra_status a), s) \<and>
         rule_tasks_apply_rule env now i s = (Skipped (''Status is '' @ ra_status a), s) \<and>
         status_of (fst (tasks_apply_rule env now i s)) = ''skipped'' \<and>
         status_of (fst (rule_tasks_apply_rule env now i s)) = ''skipped''"
  using assms by (simp add: tasks_apply_rule_def rule_tasks_apply_rule_def)

theorem apply_rule_not_pending_skipped_witness:
  "get_application applied_state 7 = Some applied_application \<and>
   ra_status applied_application \<noteq> ''pending'' \<and>
   tasks_apply_rule demo_env 50 7 applied_state =
     (Skipped ''Rule already in status: applied'', applied_state) \<and>
   rule_tasks_apply_rule demo_env 50 7 applied_state =
     (Skipped ''Status is applied'', applied_state)"
proof -
  have g: "get_application applied_state 7 = Some applied_application"
    by (simp add: get_application_def applied_state_def applied_application_def
        demo_state_def demo_application_def)
  have n: "ra_status applied_application \<noteq> ''pending''"
    by (simp add: applied_application_def)
  have v: "ra_status applied_application = ''applied''"
    by (simp add: applied_application_def)
  show ?thesis
    using g n apply_rule_not_pending_skipped [OF g n, of demo_env 50] by (simp add: v)
qed

section \<open>Failure of the apply transition\<close>

lemmas demo_defs = demo_state_def demo_rule_def demo_application_def demo_env_def demo_product_def
  demo_store_def applied_state_def applied_application_def unsupported_state_def pending_state_def
  env_log_raises_def env_remote_raises_def

lemmas task_defs = get_application_def get_rule_def save_application_def save_product_def
  create_log_def enqueue_def rollback_def response_has_product_def

text \<open>In \<open>tasks.py\<close>, a remote update that answers without a product marks the
  application \<open>failed\<close> and writes nothing else.\<close>

lemma tasks_apply_rule_remote_failure:
  assumes "get_application s i = Some a" and "ra_status a = ''pending''"
    and "get_rule s (ra_rule a) = Some r" and "fmlookup (products s) (ra_product a) = Some p"
    and "r_action_type r = ''hide_product''"
    and "\<not> (case ra_scheduled_for a of None \<Rightarrow> False | Some t \<Rightarrow> now < t)"
    and "\<not> raises env Remote_update"
    and "\<not> response_has_product (update_product env (snd (ra_product a)) ''draft'')"
    and "\<not> raises env Application_save"
  shows "tasks_apply_rule env now i s =
           (Error ''Failed to update product in Shopify'',
            save_application (a\<lparr>ra_status := ''failed'',
               ra_notes := Some ''Failed to update product in Shopify''\<rparr>) s)"
  using assms by (simp add: tasks_apply_rule_def tasks_mark_failed_def)

text \<open>The body of \<open>rule_tasks.apply_rule\<close> always raises, and hands nothing to the
  queue.\<close>

lemma rule_tasks_apply_body_raises:
  "\<exists>st s1. rule_tasks_apply_body env now a r p s = (Some st, s1) \<and> queue s1 = queue s"
  by (simp add: rule_tasks_apply_body_def rule_tasks_apply_action_def task_defs Let_def)

text \<open>So \<open>rule_tasks.apply_rule\<close> never returns \<open>success\<close> and never changes the state:
  whatever it wrote is rolled back.\<close>

lemma rollback_same_queue: "queue s1 = queue s \<Longrightarrow> rollback s s1 = s"
  by (simp add: rollback_def)

lemma rule_tasks_apply_rule_state: "snd (rule_tasks_apply_rule env now i s) = s"
proof (cases "get_application s i")
  case None
  then show ?thesis by (simp add: rule_tasks_apply_rule_def)
next
  case (Some a)
  show ?thesis
  proof (cases "ra_status a \<noteq> ''pending'' \<or> get_rule s (ra_rule a) = None \<or>
      fmlookup (products s) (ra_product a) = None")
    case True
    then show ?thesis
      using Some by (auto simp: rule_tasks_apply_rule_def split: option.splits)
  next
    case False
    then obtain r p where rp: "get_rule s (ra_rule a) = Some r"
        "fmlookup (products s) (ra_product a) = Some p" and pending: "ra_status a = ''pending''"
      by auto
    obtain st s1 where body: "rule_tasks_apply_body env now a r p s = (Some st, s1)"
      and q: "queue s1 = queue s"
      using rule_tasks_apply_body_raises by blast
    show ?thesis
      using Some rp pending body rollback_same_queue [OF q]
      by (simp add: rule_tasks_apply_rule_def)
  qed
qed

lemma rule_tasks_apply_rule_pending:
  assumes "get_application s i = Some a" and "ra_status a = ''pending''"
    and "get_rule s (ra_rule a) = Some r" and "fmlookup (products s) (ra_product a) = Some p"
  shows "\<exists>st. rule_tasks_apply_rule env now i s = (Error_raised st, s)"
proof -
  obtain st s1 where body: "rule_tasks_apply_body env now a r p s = (Some st, s1)"
    and q: "queue s1 = queue s"
    using rule_tasks_apply_body_raises by blast
  show ?thesis
    using assms body rollback_same_queue [OF q] by (simp add: rule_tasks_apply_rule_def)
qed

text \<open>
  Claim C3, at the inputs where the code departs from it. Application 7 is pending and
  due, its rule hides the product, and product (1, 100) is visible.
  \<^item> \<open>tasks.py\<close>, the remote update answering with a product and the creation of the log
    row raising: \<open>apply_rule\<close> returns an error, the application is still \<open>pending\<close>
    (not \<open>failed\<close>), and the product row already says hidden since time 10. This function
    opens no transaction.
  \<^item> \<open>tasks.py\<close>, \<open>client.update_product\<close> raising: an error is returned and nothing is
    written, so the application is still \<open>pending\<close> (not \<open>failed\<close>).
  \<^item> \<open>tasks/rule_tasks.py\<close>, nothing of the environment raising: \<open>rule.send_notification\<close>
    raises, the atomic block is rolled back and an error is returned; the product is as
    before, and the application is still \<open>pending\<close> (not \<open>failed\<close>).
\<close>

theorem apply_rule_failure_divergence:
  "status_of (fst (tasks_apply_rule env_log_raises 10 7 pending_state)) = ''error'' \<and>
   map ra_status (applications (snd (tasks_apply_rule env_log_raises 10 7 pending_state))) =
     [''pending''] \<and>
   map_option (\<lambda>p. (p_is_visible p, p_hidden_at p))
     (fmlookup (products pending_state) (1, 100)) = Some (True, None) \<and>
   map_option (\<lambda>p. (p_is_visible p, p_hidden_at p))
     (fmlookup (products (snd (tasks_apply_rule env_log_raises 10 7 pending_state))) (1, 100)) =
     Some (False, Some 10) \<and>
   tasks_apply_rule env_remote_raises 10 7 pending_state =
     (Error_raised Remote_update, pending_state) \<and>
   rule_tasks_apply_rule demo_env 10 7 pending_state =
     (Error_raised Rule_send_notification, pending_state) \<and>
   map ra_status (applications pending_state) = [''pending'']"
  by (simp add: tasks_apply_rule_def tasks_hide_product_def rule_tasks_apply_rule_def
      rule_tasks_apply_body_def rule_tasks_apply_action_def demo_defs task_defs Let_def)

section \<open>Unsupported action types\<close>

text \<open>In \<open>tasks.py\<close> the final \<open>else\<close> branch marks the application \<open>failed\<close> with a
  note and returns an error.\<close>

lemma tasks_apply_rule_unsupported:
  assumes "get_application s i = Some a" and "ra_status a = ''pending''"
    and "get_rule s (ra_rule a) = Some r" and "fmlookup (products s) (ra_product a) = Some p"
    and "r_action_type r \<noteq> ''hide_product''"
    and "\<not> (case ra_scheduled_for a of None \<Rightarrow> False | Some t \<Rightarrow> now < t)"
    and "\<not> raises env Application_save"
  shows "tasks_apply_rule env now i s =
           (Error (''Unsupported action type: '' @ r_action_type r),
            save_application (a\<lparr>ra_status := ''failed'',
               ra_notes := Some (''Unsupported action type: '' @ r_action_type r)\<rparr>) s)"
  using assms by (simp add: tasks_apply_rule_def tasks_mark_failed_def)

text \<open>
  Claim C5, at the input where \<open>tasks/rule_tasks.py\<close> departs from it. The rule's action
  is \<open>tag_product\<close>, which no branch of \<open>apply_rule\<close> implements. The task falls through
  both branches, saves the application as \<open>applied\<close>, creates the log row, and then
  \<open>rule.send_notification\<close> raises: the block is rolled back and an error is returned, with
  the application still \<open>pending\<close> and without a note, where the claim asks for \<open>failed\<close>
  and a note. \<open>apply_rule\<close> of \<open>tasks.py\<close> does on the same input what the claim says.
\<close>

theorem rule_tasks_apply_rule_unsupported_pending:
  "rule_tasks_apply_rule demo_env 10 7 unsupported_state =
     (Error_raised Rule_send_notification, unsupported_state) \<and>
   status_of (fst (rule_tasks_apply_rule demo_env 10 7 unsupported_state)) = ''error'' \<and>
   map (\<lambda>a. (ra_status a, ra_notes a)) (applications unsupported_state) = [(''pending'', None)] \<and>
   fst (tasks_apply_rule demo_env 10 7 unsupported_state) =
     Error ''Unsupported action type: tag_product'' \<and>
   map (\<lambda>a. (ra_status a, ra_notes a))
     (applications (snd (tasks_apply_rule demo_env 10 7 unsupported_state))) =
     [(''failed'', Some ''Unsupported action type: tag_product'')]"
  by (simp add: rule_tasks_apply_rule_def rule_tasks_apply_body_def rule_tasks_apply_action_def
      tasks_apply_rule_def tasks_mark_failed_def demo_defs task_defs Let_def)

section \<open>The restore transition\<close>

text \<open>On any status but \<open>applied\<close> both implementations return \<open>skipped\<close> and write
  nothing.\<close>

lemma restore_product_not_applied_skipped:
  assumes "get_application s i = Some a" and "ra_status a \<noteq> ''applied''"
  shows "status_of (fst (tasks_restore_product env now i s)) = ''skipped''"
    and "snd (tasks_restore_product env now i s) = s"
    and "rule_tasks_restore_product env now i s = (Skipped (''Status is '' @ ra_status a), s)"
  using assms by (simp_all add: tasks_restore_product_def rule_tasks_restore_product_def)

text \<open>The body of \<open>rule_tasks.restore_product\<close> always raises, so on an applied
  application the task returns an error and the state is as before.\<close>

lemma rule_tasks_restore_body_raises:
  "\<exists>st s1. rule_tasks_restore_body env now a r p s = (Some st, s1) \<and> queue s1 = queue s"
  by (simp add: rule_tasks_restore_body_def task_defs Let_def)

lemma rule_tasks_restore_product_applied:
  assumes "get_application s i = Some a" and "ra_status a = ''applied''"
    and "get_rule s (ra_rule a) = Some r" and "fmlookup (products s) (ra_product a) = Some p"
  shows "\<exists>st. rule_tasks_restore_product env now i s = (Error_raised st, s)"
proof -
  obtain st s1 where body: "rule_tasks_restore_body env now a r p s = (Some st, s1)"
    and q: "queue s1 = queue s"
    using rule_tasks_restore_body_raises by blast
  show ?thesis
    using assms body rollback_same_queue [OF q] by (simp add: rule_tasks_restore_product_def)
qed

text \<open>
  Claim C4, at the input where the code departs from it: an applied application of a
  \<open>hide_product\<close> rule on a product hidden at time 5 with a scheduled return at 9, the
  remote update succeeding and nothing of the environment raising.
  \<^item> \<open>restore_product\<close> of \<open>tasks/rule_tasks.py\<close> saves the product and creates the log
    row, then \<open>application.save(update_fields=['status', 'restored_at'])\<close> raises; the
    block is rolled back and an error is returned: the application is still \<open>applied\<close>
    and the product is still hidden. (The status it tried to store is \<open>restored\<close>, which
    is not in \<open>RuleApplication.STATUS_CHOICES\<close>.)
  \<^item> \<open>restore_product\<close> of \<open>tasks.py\<close> stores \<open>reversed\<close> and makes the product
    visible, but leaves \<open>hidden_at\<close> and \<open>scheduled_return\<close> set.
\<close>

theorem restore_product_divergence:
  "rule_tasks_restore_product demo_env 20 7 applied_state =
     (Error_raised Application_restored_at, applied_state) \<and>
   map ra_status (applications applied_state) = [''applied''] \<and>
   map_option (\<lambda>p. (p_is_visible p, p_hidden_at p, p_scheduled_return p))
     (fmlookup (products applied_state) (1, 100)) = Some (False, Some 5, Some 9) \<and>
   status_of (fst (tasks_restore_product demo_env 20 7 applied_state)) = ''success'' \<and>
   map ra_status (applications (snd (tasks_restore_product demo_env 20 7 applied_state))) =
     [''reversed''] \<and>
   length (logs (snd (tasks_restore_product demo_env 20 7 applied_state))) = 1 \<and>
   map_option (\<lambda>p. (p_is_visible p, p_hidden_at p, p_scheduled_return p))
     (fmlookup (products (snd (tasks_restore_product demo_env 20 7 applied_state))) (1, 100)) =
     Some (True, Some 5, Some 9)"
  by (simp add: rule_tasks_restore_product_def rule_tasks_restore_body_def tasks_restore_product_def
      tasks_show_product_def demo_defs task_defs Let_def)

section \<open>Scheduling twice\<close>



lemma rule_tasks_schedule_first_raises:
  assumes "pending_for s (r_id rule) product = []"
  shows "rule_tasks_schedule_rule_application now rule product s = Inl (TypeError ''scheduled_at'')"
  using assms by (simp add: rule_tasks_schedule_rule_application_def)






section \<open>Writes by key absorb their repetition\<close>

text \<open>
  A fold of writes by key, run a second time on its own result, changes nothing, provided
  each write is idempotent and absorbs the other writes to its key.
\<close>

lemma absorbing_subset: "absorbing W \<Longrightarrow> V \<subseteq> W \<Longrightarrow> absorbing V"
  unfolding absorbing_def by blast

lemma upsert_row_idem:
  assumes "idempotent_write (snd e)"
  shows "upsert_row e (upsert_row e m) = upsert_row e m"
  using assms by (intro fmap_ext) (simp add: upsert_row_def idempotent_write_def)

lemma upsert_row_cong:
  assumes eq: "upsert_row e m = upsert_row e m'"
    and c: "fst e = fst a \<Longrightarrow> absorbs (snd e) (snd a)"
  shows "upsert_row e (upsert_row a m) = upsert_row e (upsert_row a m')"
proof (rule fmap_ext)
  fix x
  from eq have at: "fmlookup (upsert_row e m) y = fmlookup (upsert_row e m') y" for y
    by simp
  have other: "fmlookup m y = fmlookup m' y" if "y \<noteq> fst e" for y
    using at [of y] that by (simp add: upsert_row_def)
  have here: "snd e (fmlookup m (fst e)) = snd e (fmlookup m' (fst e))"
    using at [of "fst e"] by (simp add: upsert_row_def)
  show "fmlookup (upsert_row e (upsert_row a m)) x =
        fmlookup (upsert_row e (upsert_row a m')) x"
  proof (cases "x = fst e")
    case True
    show ?thesis
    proof (cases "fst e = fst a")
      case True
      with c here have "snd e (Some (snd a (fmlookup m (fst e)))) =
          snd e (Some (snd a (fmlookup m' (fst e))))"
        unfolding absorbs_def by blast
      with True \<open>x = fst e\<close> show ?thesis by (simp add: upsert_row_def)
    next
      case False
      with here \<open>x = fst e\<close> show ?thesis by (simp add: upsert_row_def)
    qed
  next
    case False
    then show ?thesis using other by (simp add: upsert_row_def)
  qed
qed

lemma fold_upsert_absorb:
  assumes "absorbing (insert e (set L))" and "e \<in> set L" and "upsert_row e x = upsert_row e y"
  shows "fold upsert_row L x = fold upsert_row L y"
  using assms
proof (induction L arbitrary: x y)
  case Nil
  then show ?case by simp
next
  case (Cons a L)
  show ?case
  proof (cases "a = e")
    case True
    with Cons.prems(3) show ?thesis by simp
  next
    case False
    with Cons.prems(2) have mem: "e \<in> set L" by simp
    have abs: "absorbing (insert e (set L))"
      by (rule absorbing_subset [OF Cons.prems(1)]) auto
    have "fst e = fst a \<Longrightarrow> absorbs (snd e) (snd a)"
      using Cons.prems(1) unfolding absorbing_def by simp
    then have "upsert_row e (upsert_row a x) = upsert_row e (upsert_row a y)"
      using upsert_row_cong [OF Cons.prems(3)] by blast
    from Cons.IH [OF abs mem this] show ?thesis by simp
  qed
qed

lemma fold_upsert_prefix:
  assumes "absorbing (set L)" and "set M \<subseteq> set L"
  shows "fold upsert_row L (fold upsert_row M x) = fold upsert_row L x"
  using assms
proof (induction M arbitrary: x)
  case Nil
  then show ?case by simp
next
  case (Cons e M)
  from Cons.prems have mem: "e \<in> set L" and sub: "set M \<subseteq> set L" by auto
  have abs: "absorbing (insert e (set L))" using Cons.prems(1) mem by (simp add: insert_absorb)
  have "idempotent_write (snd e)"
    using Cons.prems(1) mem unfolding absorbing_def by blast
  then have "upsert_row e (upsert_row e x) = upsert_row e x"
    by (rule upsert_row_idem)
  from fold_upsert_absorb [OF abs mem this]
  have "fold upsert_row L (upsert_row e x) = fold upsert_row L x" .
  moreover have "fold upsert_row L (fold upsert_row M (upsert_row e x)) =
      fold upsert_row L (upsert_row e x)"
    using Cons.IH [OF Cons.prems(1) sub] .
  ultimately show ?case by simp
qed

lemma fold_upsert_idem:
  assumes "absorbing (set L)"
  shows "fold upsert_row L (fold upsert_row L x) = fold upsert_row L x"
  using fold_upsert_prefix [OF assms subset_refl] .

lemma fold_upsert_dom:
  "fmdom' (fold upsert_row L m) = fmdom' m \<union> fst ` set L"
  by (induction L arbitrary: m) (auto simp: upsert_row_def)

lemma fold_upsert_agree:
  assumes "list_all2 same_on_rows L L'" and "fst ` set L \<subseteq> fmdom' m"
  shows "fold upsert_row L m = fold upsert_row L' m"
  using assms
proof (induction L L' arbitrary: m rule: list_all2_induct)
  case Nil
  then show ?case by simp
next
  case (Cons a L b L')
  from Cons.prems have "fst a \<in> fmdom' m" by simp
  then obtain r where r: "fmlookup m (fst a) = Some r"
    by (auto simp: fmlookup_dom'_iff)
  have step: "upsert_row a m = upsert_row b m"
    using Cons.hyps(1) r by (simp add: upsert_row_def same_on_rows_def)
  have "fst ` set L \<subseteq> fmdom' (upsert_row b m)"
    using Cons.prems by (auto simp: upsert_row_def)
  from Cons.IH [OF this] step show ?case by simp
qed

lemma fold_upsert_twice:
  assumes "absorbing (set L)" and "list_all2 same_on_rows L' L"
  shows "fold upsert_row L' (fold upsert_row L m) = fold upsert_row L m"
proof -
  have "fst ` set L' = fst ` set L"
    using assms(2) by (induction rule: list_all2_induct) (auto simp: same_on_rows_def)
  then have "fst ` set L' \<subseteq> fmdom' (fold upsert_row L m)"
    by (simp add: fold_upsert_dom)
  from fold_upsert_agree [OF assms(2) this] fold_upsert_idem [OF assms(1)]
  show ?thesis by simp
qed

section \<open>The loops of \<open>sync_store_data\<close>, table by table\<close>

lemma sync_level_eq:
  "sync_level now sid vk ld s =
     s\<lparr>locations := locations_get_or_create now (sid, ld_location_id ld) (locations s),
       levels := levels_upsert now (vk, (sid, ld_location_id ld)) ld (levels s)\<rparr>"
  by (simp add: sync_level_def Let_def)

lemma fold_sync_level_eq:
  "fold (sync_level now sid vk) lds s =
     s\<lparr>locations := locations_apply now (map (\<lambda>ld. ((vk, (sid, ld_location_id ld)), ld)) lds) (locations s),
       levels := levels_apply now (map (\<lambda>ld. ((vk, (sid, ld_location_id ld)), ld)) lds) (levels s)\<rparr>"
  by (induction lds arbitrary: s) (simp_all add: sync_level_eq locations_apply_def levels_apply_def)

lemma sync_variant_eq:
  "sync_variant rem now sid pk vd s =
     s\<lparr>variants := variants_upsert now (pk, vd_id vd) vd (variants s),
       remote_calls := remote_calls s @ [InventoryLevel_find (vd_inventory_item_id vd)],
       locations := locations_apply now (level_items rem sid pk vd) (locations s),
       levels := levels_apply now (level_items rem sid pk vd) (levels s)\<rparr>"
  by (simp add: sync_variant_def Let_def record_call_def fold_sync_level_eq level_items_def
      level_list_def locations_apply_def levels_apply_def split: option.splits)

lemma fold_sync_variant_eq:
  "fold (sync_variant rem now sid pk) vds s =
     s\<lparr>variants := variants_apply now (map (\<lambda>vd. ((pk, vd_id vd), vd)) vds) (variants s),
       remote_calls := remote_calls s @ map (\<lambda>vd. InventoryLevel_find (vd_inventory_item_id vd)) vds,
       locations := locations_apply now (concat (map (level_items rem sid pk) vds)) (locations s),
       levels := levels_apply now (concat (map (level_items rem sid pk) vds)) (levels s)\<rparr>"
  by (induction vds arbitrary: s)
     (simp_all add: sync_variant_eq locations_apply_def levels_apply_def variants_apply_def)

lemma sync_product_data_eq:
  "sync_product_data rem now sid pd s =
     s\<lparr>products := products_upsert now (sid, pd_id pd) pd (products s),
       variants := variants_touch_unsynced now (sid, pd_id pd) (map vd_id (pd_variants pd))
                    (variants_apply now (variant_items sid pd) (variants s)),
       remote_calls := remote_calls s @ map (\<lambda>vd. InventoryLevel_find (vd_inventory_item_id vd)) (pd_variants pd),
       locations := locations_apply now (product_level_items rem sid pd) (locations s),
       levels := levels_apply now (product_level_items rem sid pd) (levels s)\<rparr>"
  by (simp add: sync_product_data_def Let_def fold_sync_variant_eq variant_items_def
      product_level_items_def)

lemma fold_sync_product_data_eq:
  "fold (sync_product_data rem now sid) pds s =
     s\<lparr>products := products_apply now sid pds (products s),
       variants := catalog_variants now sid pds (variants s),
       remote_calls := remote_calls s @ catalog_calls pds,
       locations := locations_apply now (catalog_level_items rem sid pds) (locations s),
       levels := levels_apply now (catalog_level_items rem sid pds) (levels s)\<rparr>"
  by (induction pds arbitrary: s)
     (simp_all add: sync_product_data_eq products_apply_def catalog_variants_def catalog_calls_def
        locations_apply_def levels_apply_def catalog_level_items_def)

lemma process_products_eq:
  "process_products rem now sid pds s =
     s\<lparr>products := products_touch_unsynced now sid (map pd_id pds)
                    (products_apply now sid pds (products s)),
       variants := catalog_variants now sid pds (variants s),
       remote_calls := remote_calls s @ catalog_calls pds,
       locations := locations_apply now (catalog_level_items rem sid pds) (locations s),
       levels := levels_apply now (catalog_level_items rem sid pds) (levels s)\<rparr>"
  by (simp add: process_products_def Let_def fold_sync_product_data_eq)

section \<open>The writes of a pass on rows without timestamps\<close>

subsection \<open>Products\<close>

lemma products_upsert_without_times:
  "fmmap product_without_times (products_upsert now k pd m) =
     upsert_row (k, product_write now pd) (fmmap product_without_times m)"
  by (rule fmap_ext)
     (simp add: products_upsert_def upsert_row_def product_write_def product_without_times_def
        new_product_def split: option.splits)

lemma products_apply_without_times:
  "fmmap product_without_times (products_apply now sid pds m) =
     fold upsert_row (product_writes now sid pds) (fmmap product_without_times m)"
  by (induction pds arbitrary: m)
     (simp_all add: products_apply_def product_writes_def products_upsert_without_times)

lemma products_touch_without_times:
  "fmmap product_without_times (products_touch_unsynced now sid ids m) =
     fmmap product_without_times m"
proof (rule fmap_ext)
  fix x
  show "fmlookup (fmmap product_without_times (products_touch_unsynced now sid ids m)) x =
        fmlookup (fmmap product_without_times m) x"
    by (cases "fmlookup m x")
       (simp_all add: products_touch_unsynced_def product_without_times_def)
qed

lemma product_write_idempotent: "idempotent_write (product_write now pd)"
  by (simp add: idempotent_write_def product_write_def)

lemma product_write_absorbs: "absorbs (product_write now pd) (product_write now pd')"
  by (simp add: absorbs_def product_write_def)

lemma product_writes_absorbing: "absorbing (set (product_writes now sid pds))"
  by (auto simp: absorbing_def product_writes_def product_write_idempotent product_write_absorbs)

lemma product_writes_same_on_rows:
  "list_all2 same_on_rows (product_writes t2 sid pds) (product_writes t1 sid pds)"
  by (induction pds) (simp_all add: product_writes_def same_on_rows_def product_write_def)

subsection \<open>Inventory levels\<close>

lemma levels_upsert_without_times:
  "fmmap level_without_times (levels_upsert now k ld m) =
     upsert_row (k, level_write now ld) (fmmap level_without_times m)"
  by (rule fmap_ext)
     (simp add: levels_upsert_def upsert_row_def level_write_def level_without_times_def
        split: option.splits)

lemma levels_apply_without_times:
  "fmmap level_without_times (levels_apply now items m) =
     fold upsert_row (level_writes now items) (fmmap level_without_times m)"
  by (induction items arbitrary: m)
     (simp_all add: levels_apply_def level_writes_def levels_upsert_without_times split: prod.splits)

lemma level_writes_absorbing: "absorbing (set (level_writes now items))"
  by (auto simp: absorbing_def level_writes_def idempotent_write_def absorbs_def level_write_def)

lemma level_writes_same_on_rows:
  "list_all2 same_on_rows (level_writes t2 items) (level_writes t1 items)"
  by (induction items) (simp_all add: level_writes_def same_on_rows_def level_write_def split: prod.splits)

subsection \<open>Locations\<close>

lemma locations_get_or_create_row:
  "locations_get_or_create now k m = upsert_row (k, location_write now k) m"
  by (rule fmap_ext)
     (simp add: locations_get_or_create_def upsert_row_def location_write_def split: option.splits)

lemma locations_apply_rows:
  "locations_apply now items m = fold upsert_row (location_writes now items) m"
  by (induction items arbitrary: m)
     (simp_all add: locations_apply_def location_writes_def locations_get_or_create_row split: prod.splits)

lemma location_writes_absorbing: "absorbing (set (location_writes now items))"
  by (auto simp: absorbing_def location_writes_def idempotent_write_def absorbs_def location_write_def
      split: option.splits)

lemma location_writes_same_on_rows:
  "list_all2 same_on_rows (location_writes t2 items) (location_writes t1 items)"
  by (induction items) (simp_all add: location_writes_def same_on_rows_def location_write_def split: prod.splits)

subsection \<open>Variants\<close>

lemma variants_upsert_without_times:
  "fmmap variant_without_times (variants_upsert now k vd m) =
     upsert_row (k, variant_write now vd) (fmmap variant_without_times m)"
  by (rule fmap_ext)
     (simp add: variants_upsert_def upsert_row_def variant_write_def variant_without_times_def
        new_variant_def Let_def split: option.splits)

lemma variants_apply_without_times:
  "fmmap variant_without_times (variants_apply now items m) =
     fold upsert_row (variant_writes now items) (fmmap variant_without_times m)"
  by (induction items arbitrary: m)
     (simp_all add: variants_apply_def variant_writes_def variants_upsert_without_times split: prod.splits)

lemma variants_touch_without_times:
  "fmmap variant_without_times (variants_touch_unsynced now pk ids m) =
     fmmap variant_without_times m"
proof (rule fmap_ext)
  fix x
  show "fmlookup (fmmap variant_without_times (variants_touch_unsynced now pk ids m)) x =
        fmlookup (fmmap variant_without_times m) x"
    by (cases "fmlookup m x")
       (simp_all add: variants_touch_unsynced_def variant_without_times_def)
qed

lemma catalog_variants_without_times:
  "fmmap variant_without_times (catalog_variants now sid pds m) =
     fold upsert_row (variant_writes now (concat (map (variant_items sid) pds)))
       (fmmap variant_without_times m)"
proof (induction pds arbitrary: m)
  case Nil
  then show ?case by (simp add: catalog_variants_def variant_writes_def)
next
  case (Cons pd pds)
  have "fmmap variant_without_times (catalog_variants now sid (pd # pds) m) =
        fmmap variant_without_times (catalog_variants now sid pds
          (variants_touch_unsynced now (sid, pd_id pd) (map vd_id (pd_variants pd))
             (variants_apply now (variant_items sid pd) m)))"
    by (simp add: catalog_variants_def)
  also have "\<dots> = fold upsert_row (variant_writes now (concat (map (variant_items sid) pds)))
      (fold upsert_row (variant_writes now (variant_items sid pd)) (fmmap variant_without_times m))"
    by (simp add: Cons.IH variants_touch_without_times variants_apply_without_times)
  finally show ?case by (simp add: variant_writes_def)
qed

lemma variant_write_idempotent: "idempotent_write (variant_write now vd)"
  by (simp add: idempotent_write_def variant_write_def Let_def split: option.splits)

lemma variant_write_fields:
  "variant_write now vd r =
     (let v = (case r of None \<Rightarrow> new_variant now | Some v \<Rightarrow> v)
      in \<lparr>v_title = vd_title vd,
          v_sku = (if truthy (vd_sku vd) then vd_sku vd else v_sku v),
          v_barcode = (if truthy (vd_barcode vd) then vd_barcode vd else v_barcode v),
          v_price = vd_price vd,
          v_compare_at_price =
            (if truthy (vd_compare_at_price vd) then vd_compare_at_price vd
             else v_compare_at_price v),
          v_position = (case vd_position vd of None \<Rightarrow> v_position v | Some n \<Rightarrow> n),
          v_created_at = v_created_at v, v_updated_at = 0,
          v_inventory_item_id = vd_inventory_item_id vd\<rparr>)"
  by (simp add: variant_write_def Let_def)

lemma variant_write_twice:
  "variant_write now vd (Some (variant_write now vd' r)) =
     (let v = (case r of None \<Rightarrow> new_variant now | Some v \<Rightarrow> v)
      in \<lparr>v_title = vd_title vd,
          v_sku = (if truthy (vd_sku vd) then vd_sku vd
                   else if truthy (vd_sku vd') then vd_sku vd' else v_sku v),
          v_barcode = (if truthy (vd_barcode vd) then vd_barcode vd
                       else if truthy (vd_barcode vd') then vd_barcode vd' else v_barcode v),
          v_price = vd_price vd,
          v_compare_at_price =
            (if truthy (vd_compare_at_price vd) then vd_compare_at_price vd
             else if truthy (vd_compare_at_price vd') then vd_compare_at_price vd'
             else v_compare_at_price v),
          v_position =
            (case vd_position vd of
               None \<Rightarrow> (case vd_position vd' of None \<Rightarrow> v_position v | Some n \<Rightarrow> n)
             | Some n \<Rightarrow> n),
          v_created_at = v_created_at v, v_updated_at = 0,
          v_inventory_item_id = vd_inventory_item_id vd\<rparr>)"
  by (simp add: variant_write_def Let_def split: option.splits)

lemma variant_write_absorbs: "absorbs (variant_write now vd) (variant_write now vd')"
  unfolding absorbs_def
proof (intro allI impI)
  fix r r'
  define b where "b = (case r of None \<Rightarrow> new_variant now | Some v \<Rightarrow> v)"
  define b' where "b' = (case r' of None \<Rightarrow> new_variant now | Some v \<Rightarrow> v)"
  assume h: "variant_write now vd r = variant_write now vd r'"
  have sku: "(if truthy (vd_sku vd) then vd_sku vd else v_sku b) =
             (if truthy (vd_sku vd) then vd_sku vd else v_sku b')"
    and barcode: "(if truthy (vd_barcode vd) then vd_barcode vd else v_barcode b) =
             (if truthy (vd_barcode vd) then vd_barcode vd else v_barcode b')"
    and cap: "(if truthy (vd_compare_at_price vd) then vd_compare_at_price vd
               else v_compare_at_price b) =
              (if truthy (vd_compare_at_price vd) then vd_compare_at_price vd
               else v_compare_at_price b')"
    and pos: "(case vd_position vd of None \<Rightarrow> v_position b | Some n \<Rightarrow> n) =
              (case vd_position vd of None \<Rightarrow> v_position b' | Some n \<Rightarrow> n)"
    and created: "v_created_at b = v_created_at b'"
    using h unfolding variant_write_fields Let_def b_def b'_def by simp_all
  have sku2: "(if truthy (vd_sku vd) then vd_sku vd
               else if truthy (vd_sku vd') then vd_sku vd' else v_sku b) =
              (if truthy (vd_sku vd) then vd_sku vd
               else if truthy (vd_sku vd') then vd_sku vd' else v_sku b')"
    using sku by (cases "truthy (vd_sku vd)") simp_all
  have barcode2: "(if truthy (vd_barcode vd) then vd_barcode vd
               else if truthy (vd_barcode vd') then vd_barcode vd' else v_barcode b) =
              (if truthy (vd_barcode vd) then vd_barcode vd
               else if truthy (vd_barcode vd') then vd_barcode vd' else v_barcode b')"
    using barcode by (cases "truthy (vd_barcode vd)") simp_all
  have cap2: "(if truthy (vd_compare_at_price vd) then vd_compare_at_price vd
               else if truthy (vd_compare_at_price vd') then vd_compare_at_price vd'
               else v_compare_at_price b) =
              (if truthy (vd_compare_at_price vd) then vd_compare_at_price vd
               else if truthy (vd_compare_at_price vd') then vd_compare_at_price vd'
               else v_compare_at_price b')"
    using cap by (cases "truthy (vd_compare_at_price vd)") simp_all
  have pos2: "(case vd_position vd of
                 None \<Rightarrow> (case vd_position vd' of None \<Rightarrow> v_position b | Some n \<Rightarrow> n)
               | Some n \<Rightarrow> n) =
              (case vd_position vd of
                 None \<Rightarrow> (case vd_position vd' of None \<Rightarrow> v_position b' | Some n \<Rightarrow> n)
               | Some n \<Rightarrow> n)"
    using pos by (cases "vd_position vd"; cases "vd_position vd'") simp_all
  show "variant_write now vd (Some (variant_write now vd' r)) =
        variant_write now vd (Some (variant_write now vd' r'))"
    unfolding variant_write_twice Let_def b_def [symmetric] b'_def [symmetric]
    by (simp only: sku2 barcode2 cap2 pos2 created)
qed

lemma variant_writes_absorbing: "absorbing (set (variant_writes now items))"
  by (auto simp: absorbing_def variant_writes_def variant_write_idempotent variant_write_absorbs)

lemma variant_writes_same_on_rows:
  "list_all2 same_on_rows (variant_writes t2 items) (variant_writes t1 items)"
  by (induction items) (simp_all add: variant_writes_def same_on_rows_def variant_write_def split: prod.splits)

section \<open>Synchronising twice\<close>

subsection \<open>A second pass on each table\<close>

lemma products_pass_twice:
  "fmmap product_without_times
     (products_touch_unsynced t2 sid ids (products_apply t2 sid pds
        (products_touch_unsynced t1 sid ids (products_apply t1 sid pds m)))) =
   fmmap product_without_times (products_touch_unsynced t1 sid ids (products_apply t1 sid pds m))"
  by (simp add: products_touch_without_times products_apply_without_times
      fold_upsert_twice [OF product_writes_absorbing product_writes_same_on_rows])

lemma variants_pass_twice:
  "fmmap variant_without_times (catalog_variants t2 sid pds (catalog_variants t1 sid pds m)) =
   fmmap variant_without_times (catalog_variants t1 sid pds m)"
  by (simp add: catalog_variants_without_times
      fold_upsert_twice [OF variant_writes_absorbing variant_writes_same_on_rows])

lemma locations_pass_twice:
  "locations_apply t2 items (locations_apply t1 items m) = locations_apply t1 items m"
  by (simp add: locations_apply_rows
      fold_upsert_twice [OF location_writes_absorbing location_writes_same_on_rows])

lemma levels_pass_twice:
  "fmmap level_without_times (levels_apply t2 items (levels_apply t1 items m)) =
   fmmap level_without_times (levels_apply t1 items m)"
  by (simp add: levels_apply_without_times
      fold_upsert_twice [OF level_writes_absorbing level_writes_same_on_rows])

subsection \<open>The task\<close>

lemma fetch_pages_eq:
  "fetch_pages pages s = (collect_pages pages, s\<lparr>remote_calls := remote_calls s @ page_calls pages\<rparr>)"
  by (induction pages s rule: fetch_pages.induct)
     (simp_all add: record_call_def split: option.splits)

lemma sync_store_data_success_eq:
  assumes "fmlookup (stores s) sid = Some store" and "truthy (st_access_token store)"
    and "session_ok rem" and "collect_pages (product_pages rem) = Some pds"
  shows "sync_store_data rem now sid s =
     (Sync_success (''Successfully synced store '' @ st_shop_url store),
      s\<lparr>products := products_touch_unsynced now sid (map pd_id pds)
                     (products_apply now sid pds (products s)),
        variants := catalog_variants now sid pds (variants s),
        locations := locations_apply now (catalog_level_items rem sid pds) (locations s),
        levels := levels_apply now (catalog_level_items rem sid pds) (levels s),
        stores := fmupd sid (store\<lparr>st_last_sync_at := Some now, st_sync_status := ''success''\<rparr>)
                    (stores s),
        remote_calls := remote_calls s @ [Activate_session] @ page_calls (product_pages rem) @
                          catalog_calls pds @ [Clear_session]\<rparr>)"
  using assms
  by (simp add: sync_store_data_def sync_store_data_body_def fetch_pages_eq process_products_eq
      record_call_def Let_def)

lemma sync_store_data_success_cases:
  assumes "sync_store_data rem now sid s = (Sync_success msg, s1)"
  shows "\<exists>store pds. fmlookup (stores s) sid = Some store \<and> truthy (st_access_token store) \<and>
           session_ok rem \<and> collect_pages (product_pages rem) = Some pds"
  using assms
  by (auto simp: sync_store_data_def sync_store_data_body_def fetch_pages_eq Let_def
      split: option.splits if_splits prod.splits)

text \<open>
  Claim C6. When \<open>sync_store_data\<close> has succeeded on a store, running it again against
  the same remote catalog succeeds and produces no net change: every table has the same
  rows (the same natural keys), and every column other than the \<open>updated_at\<close>,
  \<open>last_synced\<close> and \<open>last_sync_at\<close> timestamps has the same value. Each write of
  the pass is an upsert by the natural key of its table.
\<close>

theorem sync_store_data_twice:
  assumes "sync_store_data rem t1 sid s = (Sync_success msg, s1)"
  shows "\<exists>s2. sync_store_data rem t2 sid s1 = (Sync_success msg, s2) \<and>
           without_sync_times s2 = without_sync_times s1 \<and>
           fmdom' (products s2) = fmdom' (products s1) \<and>
           fmdom' (variants s2) = fmdom' (variants s1) \<and>
           fmdom' (locations s2) = fmdom' (locations s1) \<and>
           fmdom' (levels s2) = fmdom' (levels s1)"
proof -
  obtain store pds where c: "fmlookup (stores s) sid = Some store"
      "truthy (st_access_token store)" "session_ok rem"
      "collect_pages (product_pages rem) = Some pds"
    using sync_store_data_success_cases [OF assms] by blast
  let ?store1 = "store\<lparr>st_last_sync_at := Some t1, st_sync_status := ''success''\<rparr>"
  from sync_store_data_success_eq [OF c, of t1] assms
  have msg: "msg = ''Successfully synced store '' @ st_shop_url store"
    and s1: "s1 = s\<lparr>products := products_touch_unsynced t1 sid (map pd_id pds)
                     (products_apply t1 sid pds (products s)),
        variants := catalog_variants t1 sid pds (variants s),
        locations := locations_apply t1 (catalog_level_items rem sid pds) (locations s),
        levels := levels_apply t1 (catalog_level_items rem sid pds) (levels s),
        stores := fmupd sid ?store1 (stores s),
        remote_calls := remote_calls s @ [Activate_session] @ page_calls (product_pages rem) @
                          catalog_calls pds @ [Clear_session]\<rparr>"
    by simp_all
  have l1: "fmlookup (stores s1) sid = Some ?store1" by (simp add: s1)
  have t1: "truthy (st_access_token ?store1)" using c(2) by simp
  note run2 = sync_store_data_success_eq [OF l1 t1 c(3,4), of t2]
  let ?s2 = "snd (sync_store_data rem t2 sid s1)"
  have r2: "sync_store_data rem t2 sid s1 = (Sync_success msg, ?s2)"
    by (simp add: run2 msg)
  have p: "fmmap product_without_times (products ?s2) = fmmap product_without_times (products s1)"
    by (simp add: run2) (simp add: s1 products_pass_twice)
  have v: "fmmap variant_without_times (variants ?s2) = fmmap variant_without_times (variants s1)"
    by (simp add: run2) (simp add: s1 variants_pass_twice)
  have lo: "locations ?s2 = locations s1"
    by (simp add: run2) (simp add: s1 locations_pass_twice)
  have le: "fmmap level_without_times (levels ?s2) = fmmap level_without_times (levels s1)"
    by (simp add: run2) (simp add: s1 levels_pass_twice)
  have st: "fmmap store_without_times (stores ?s2) = fmmap store_without_times (stores s1)"
    by (simp add: run2) (rule fmap_ext, simp add: s1 store_without_times_def)
  have rest: "rules ?s2 = rules s1" "applications ?s2 = applications s1"
      "next_application_id ?s2 = next_application_id s1" "logs ?s2 = logs s1"
      "queue ?s2 = queue s1"
    by (simp_all add: run2)
  have w: "without_sync_times ?s2 = without_sync_times s1"
    unfolding without_sync_times_def
    by (rule state.equality) (simp_all add: p v lo le st rest)
  have d: "fmdom' (products ?s2) = fmdom' (products s1)"
      "fmdom' (variants ?s2) = fmdom' (variants s1)"
      "fmdom' (levels ?s2) = fmdom' (levels s1)"
    using arg_cong [OF p, of fmdom'] arg_cong [OF v, of fmdom'] arg_cong [OF le, of fmdom']
    by simp_all
  have dl: "fmdom' (locations ?s2) = fmdom' (locations s1)"
    by (simp only: lo)
  show ?thesis
    by (rule exI [of _ ?s2]) (intro conjI r2 w d dl)
qed

theorem sync_store_data_twice_witness:
  "fst (sync_store_data demo_remote 10 1 demo_state) =
     Sync_success ''Successfully synced store demo.myshopify.com'' \<and>
   fst (sync_store_data demo_remote 20 1 (snd (sync_store_data demo_remote 10 1 demo_state))) =
     Sync_success ''Successfully synced store demo.myshopify.com'' \<and>
   without_sync_times
     (snd (sync_store_data demo_remote 20 1 (snd (sync_store_data demo_remote 10 1 demo_state)))) =
   without_sync_times (snd (sync_store_data demo_remote 10 1 demo_state)) \<and>
   map_option p_last_synced
     (fmlookup (products (snd (sync_store_data demo_remote 10 1 demo_state))) (1, 100)) = Some 10 \<and>
   map_option p_last_synced
     (fmlookup (products (snd (sync_store_data demo_remote 20 1
        (snd (sync_store_data demo_remote 10 1 demo_state))))) (1, 100)) = Some 20"
proof -
  let ?s1 = "snd (sync_store_data demo_remote 10 1 demo_state)"
  have l: "fmlookup (stores demo_state) 1 = Some demo_store"
    by (simp add: demo_state_def)
  have t: "truthy (st_access_token demo_store)"
    by (simp add: demo_store_def truthy_def)
  have o: "session_ok demo_remote"
    by (simp add: demo_remote_def)
  have c: "collect_pages (product_pages demo_remote) = Some [demo_product_data]"
    by (simp add: demo_remote_def)
  note run1 = sync_store_data_success_eq [OF l t o c, of 10]
  have u: "st_shop_url demo_store = ''demo.myshopify.com''"
    by (simp add: demo_store_def)
  have r1: "sync_store_data demo_remote 10 1 demo_state =
      (Sync_success ''Successfully synced store demo.myshopify.com'', ?s1)"
    using run1 by (simp add: u)
  from sync_store_data_twice [OF r1, of 20]
  have r2: "fst (sync_store_data demo_remote 20 1 ?s1) =
        Sync_success ''Successfully synced store demo.myshopify.com''"
    and w: "without_sync_times (snd (sync_store_data demo_remote 20 1 ?s1)) =
        without_sync_times ?s1"
    by auto
  have l1: "fmlookup (stores ?s1) 1 =
      Some (demo_store\<lparr>st_last_sync_at := Some 10, st_sync_status := ''success''\<rparr>)"
    using run1 by simp
  have t1: "truthy (st_access_token
      (demo_store\<lparr>st_last_sync_at := Some 10, st_sync_status := ''success''\<rparr>))"
    using t by simp
  note run2 = sync_store_data_success_eq [OF l1 t1 o c, of 20]
  have p1: "map_option p_last_synced (fmlookup (products ?s1) (1, 100)) = Some 10"
    using run1 by (simp add: products_touch_unsynced_def products_apply_def products_upsert_def
        demo_product_data_def demo_state_def)
  have p2: "map_option p_last_synced
      (fmlookup (products (snd (sync_store_data demo_remote 20 1 ?s1))) (1, 100)) = Some 20"
    using run2 by (simp add: products_touch_unsynced_def products_apply_def products_upsert_def
        demo_product_data_def)
  have f1: "fst (sync_store_data demo_remote 10 1 demo_state) =
      Sync_success ''Successfully synced store demo.myshopify.com''"
    using arg_cong [OF r1, of fst] by (simp only: fst_conv)
  show ?thesis
    by (intro conjI f1 r2 w p1 p2)
qed

section \<open>A store without a credential\<close>

text \<open>
  Claim C7. For a store whose \<open>access_token\<close> is empty (\<open>None\<close> or the empty string),
  \<open>sync_store_data\<close> returns an error at once: the only write is the store's
  \<open>sync_status\<close>, set to \<open>failed\<close>; the only call to the \<open>shopify\<close> library is the
  \<open>clear_session\<close> of the \<open>finally\<close> clause, so nothing is fetched; and the products
  table, with every \<open>last_synced\<close>, is as before.
\<close>

theorem sync_store_data_no_token:
  assumes "fmlookup (stores s) sid = Some st" and "\<not> truthy (st_access_token st)"
  shows "sync_store_data rem now sid s =
           (Sync_error (''Store '' @ st_shop_url st @ '' has no access token''),
            s\<lparr>stores := fmupd sid (st\<lparr>st_sync_status := ''failed''\<rparr>) (stores s),
              remote_calls := remote_calls s @ [Clear_session]\<rparr>) \<and>
         products (snd (sync_store_data rem now sid s)) = products s \<and>
         remote_calls (snd (sync_store_data rem now sid s)) = remote_calls s @ [Clear_session] \<and>
         map_option st_sync_status (fmlookup (stores (snd (sync_store_data rem now sid s))) sid) =
           Some ''failed''"
  using assms
  by (simp add: sync_store_data_def sync_store_data_body_def set_sync_status_def record_call_def)

theorem sync_store_data_no_token_witness:
  "fmlookup (stores revoked_state) 1 = Some (demo_store\<lparr>st_access_token := Some ''''\<rparr>) \<and>
   \<not> truthy (st_access_token (demo_store\<lparr>st_access_token := Some ''''\<rparr>)) \<and>
   fst (sync_store_data demo_remote 10 1 revoked_state) =
     Sync_error ''Store demo.myshopify.com has no access token'' \<and>
   products (snd (sync_store_data demo_remote 10 1 revoked_state)) = products revoked_state \<and>
   remote_calls (snd (sync_store_data demo_remote 10 1 revoked_state)) = [Clear_session]"
proof -
  have l: "fmlookup (stores revoked_state) 1 = Some (demo_store\<lparr>st_access_token := Some ''''\<rparr>)"
    by (simp add: revoked_state_def demo_state_def)
  have t: "\<not> truthy (st_access_token (demo_store\<lparr>st_access_token := Some ''''\<rparr>))"
    by (simp add: truthy_def)
  have c: "remote_calls revoked_state = []"
    by (simp add: revoked_state_def demo_state_def)
  have u: "st_shop_url (demo_store\<lparr>st_access_token := Some ''''\<rparr>) = ''demo.myshopify.com''"
    by (simp add: demo_store_def)
  show ?thesis
    using l t sync_store_data_no_token [OF l t, of demo_remote 10] by (simp add: c u)
qed

section \<open>Remote failures of the REST client\<close>

lemma request_failure:
  assumes "method \<in> {''GET'', ''POST'', ''PUT'', ''DELETE''}"
    and "remote_failure (server attempt)"
  shows "request (Suc depth) method server attempt = Inr None"
  using assms
  by (auto simp: raise_for_status_raises_def remote_failure_def split: http_outcome.splits)

text \<open>
  Claim C10, as the code has it. When the HTTP call raises a \<open>requests\<close> exception, or
  the response has an error status (400 to 599) other than 429, \<open>_request\<close> returns
  \<open>None\<close> and raises nothing, for each of the four methods it supports; so each REST
  wrapper returns \<open>None\<close> on such a failure. What a 429 or a status below 400 leads to is
  not part of this statement.
\<close>

theorem request_failure_returns_None:
  assumes "remote_failure (server 0)"
  shows "request (Suc depth) ''GET'' server 0 = Inr None \<and>
         request (Suc depth) ''POST'' server 0 = Inr None \<and>
         request (Suc depth) ''PUT'' server 0 = Inr None \<and>
         request (Suc depth) ''DELETE'' server 0 = Inr None \<and>
         get_products (Suc depth) server = Inr None \<and>
         get_product (Suc depth) server = Inr None \<and>
         client_update_product (Suc depth) server = Inr None \<and>
         get_inventory_levels (Suc depth) server = Inr None \<and>
         create_webhook (Suc depth) server = Inr None \<and>
         delete_webhook (Suc depth) server = Inr None"
proof -
  have "request (Suc depth) m server 0 = Inr None"
    if "m \<in> {''GET'', ''POST'', ''PUT'', ''DELETE''}" for m
    using that assms by (rule request_failure)
  then show ?thesis
    unfolding get_products_def get_product_def client_update_product_def
      get_inventory_levels_def create_webhook_def delete_webhook_def
    by blast
qed

theorem request_failure_returns_None_witness:
  "remote_failure (Response 401 None None) \<and>
   remote_failure Raises_request_exception \<and>
   client_update_product (Suc 999) (\<lambda>_. Response 401 None None) = Inr None \<and>
   get_products (Suc 999) (\<lambda>_. Raises_request_exception) = Inr None"
proof -
  have a: "remote_failure ((\<lambda>_. Response 401 None None) (0::nat))"
    and b: "remote_failure ((\<lambda>_. Raises_request_exception) (0::nat))"
    by (simp_all add: remote_failure_def)
  show ?thesis
    using a b request_failure_returns_None [OF a, of 999] request_failure_returns_None [OF b, of 999]
    by simp
qed

text \<open>Outside the error codes, and 429 apart, \<open>raise_for_status\<close> raises nothing and
  \<open>_request\<close> returns what \<open>response.json()\<close> makes of the body.\<close>

lemma request_other_status:
  assumes "m \<in> {''GET'', ''POST'', ''PUT'', ''DELETE''}"
    and "server attempt = Response status retry_after body"
    and "status < 400 \<or> 600 \<le> status"
  shows "request (Suc depth) m server attempt = Inr body"
  using assms by (auto simp: raise_for_status_raises_def)

text \<open>
  The claim as worded fails on a status that is neither 2xx nor 429 nor an error code: a
  response with status 300 (Multiple Choices, which \<open>requests\<close> does not follow as a
  redirect) and a JSON body passes \<open>raise_for_status\<close>, and \<open>_request\<close> and its
  wrapper return the body, not \<open>None\<close>.
\<close>

theorem request_counterexample:
  "request 1000 ''GET'' (\<lambda>_. Response 300 None (Some [''products''])) 0 =
     Inr (Some [''products'']) \<and>
   get_products 1000 (\<lambda>_. Response 300 None (Some [''products''])) =
     Inr (Some [''products''])"
  by (simp add: get_products_def raise_for_status_raises_def eval_nat_numeral)

section \<open>The out-of-stock threshold of \<open>sync_product\<close>\<close>

subsection \<open>The sum of the level rows\<close>




subsection \<open>What the writes leave alone\<close>




subsection \<open>The threshold\<close>


subsection \<open>One unit at one of three locations, and none at any\<close>






end
